theory Spec2Isabelle
  imports Main "HOL-Library.Sublist"
begin

section \<open>Python text\<close>

text \<open>
  A Python \<open>str\<close> is a sequence of Unicode code points: \<open>len\<close>, slicing, \<open>strip\<close>,
  \<open>replace\<close> and \<open>==\<close> all work on code points. The bot's texts are Russian, so a text is
  modelled as the list of its code points. \<open>ascii\<close> embeds an ASCII literal.
\<close>

type_synonym ustr = "nat list"

definition ascii :: "string \<Rightarrow> ustr" where
  "ascii s = map of_char s"

text \<open>
  \<open>str.strip()\<close> with no argument removes leading and trailing white space, the code
  points for which \<open>str.isspace\<close> holds.
\<close>

definition is_space :: "nat \<Rightarrow> bool" where
  "is_space c = ((9 \<le> c \<and> c \<le> 13) \<or> (28 \<le> c \<and> c \<le> 32) \<or> c = 133 \<or> c = 160
     \<or> c = 5760 \<or> (8192 \<le> c \<and> c \<le> 8202) \<or> c = 8232 \<or> c = 8233 \<or> c = 8239
     \<or> c = 8287 \<or> c = 12288)"

definition strip :: "ustr \<Rightarrow> ustr" where
  "strip s = rev (dropWhile is_space (rev (dropWhile is_space s)))"

text \<open>
  \<open>str.lower()\<close>. The source compares its result with the ASCII keyword \<open>/cancel\<close> only;
  the model lower-cases A to Z and leaves every other code point as it is, which decides
  that comparison as Python does (no code point outside A to Z lower-cases to one of the
  letters of the keyword).
\<close>

definition lower_char :: "nat \<Rightarrow> nat" where
  "lower_char c = (if 65 \<le> c \<and> c \<le> 90 then c + 32 else c)"

definition lower :: "ustr \<Rightarrow> ustr" where
  "lower s = map lower_char s"

text \<open>\<open>s.replace(old, new, 1)\<close>: the first occurrence of a non-empty \<open>old\<close>, if any.\<close>

fun replace_first :: "ustr \<Rightarrow> ustr \<Rightarrow> ustr \<Rightarrow> ustr" where
  "replace_first old new [] = []"
| "replace_first old new (c # cs) =
     (if prefix old (c # cs) then new @ drop (length old) (c # cs)
      else c # replace_first old new cs)"

text \<open>\<open>str(n)\<close> for an integer, as an f-string renders it.\<close>

fun str_nat :: "nat \<Rightarrow> ustr" where
  "str_nat n = (if n < 10 then [48 + n] else str_nat (n div 10) @ [48 + n mod 10])"

declare str_nat.simps [simp del]

definition str_int :: "int \<Rightarrow> ustr" where
  "str_int i = (if i < 0 then 45 # str_nat (nat (- i)) else str_nat (nat i))"

text \<open>Truthiness of an \<open>Optional[str]\<close>: \<open>None\<close> and the empty text are false.\<close>

definition truthy :: "ustr option \<Rightarrow> bool" where
  "truthy x = (case x of None \<Rightarrow> False | Some s \<Rightarrow> s \<noteq> [])"

text \<open>\<open>x or default\<close> on an \<open>Optional[str]\<close>.\<close>

definition or_default :: "ustr option \<Rightarrow> ustr \<Rightarrow> ustr" where
  "or_default x d = (case x of None \<Rightarrow> d | Some s \<Rightarrow> (if s = [] then d else s))"

section \<open>The clock\<close>

text \<open>
  \<open>datetime.now()\<close> is an input of every operation that reads it. \<open>strftime\<close> is the
  source's one format, \<open>%Y-%m-%d %H:%M:%S\<close>; \<open>isoformat\<close> omits the fraction when the
  microsecond is zero.
\<close>

record datetime =
  year :: nat
  month :: nat
  day :: nat
  hour :: nat
  minute :: nat
  second :: nat
  microsecond :: nat

definition zfill :: "nat \<Rightarrow> ustr \<Rightarrow> ustr" where
  "zfill w s = replicate (w - length s) 48 @ s"

definition strftime :: "datetime \<Rightarrow> ustr" where
  "strftime d =
     zfill 4 (str_nat (year d)) @ ascii ''-'' @ zfill 2 (str_nat (month d)) @ ascii ''-''
     @ zfill 2 (str_nat (day d)) @ ascii '' '' @ zfill 2 (str_nat (hour d)) @ ascii '':''
     @ zfill 2 (str_nat (minute d)) @ ascii '':'' @ zfill 2 (str_nat (second d))"

definition isoformat :: "datetime \<Rightarrow> ustr" where
  "isoformat d =
     zfill 4 (str_nat (year d)) @ ascii ''-'' @ zfill 2 (str_nat (month d)) @ ascii ''-''
     @ zfill 2 (str_nat (day d)) @ ascii ''T'' @ zfill 2 (str_nat (hour d)) @ ascii '':''
     @ zfill 2 (str_nat (minute d)) @ ascii '':'' @ zfill 2 (str_nat (second d))
     @ (if microsecond d = 0 then [] else ascii ''.'' @ zfill 6 (str_nat (microsecond d)))"

section \<open>Data of the notification log (request_module.py)\<close>

text \<open>
  \<open>user_info\<close> is a \<open>Dict[str, Any]\<close>: a map from keys to Python values, of which the
  template renders \<open>None\<close>, integers and texts.
\<close>

datatype pyval = PNone | PInt int | PStr ustr

definition py_str :: "pyval \<Rightarrow> ustr" where
  "py_str v = (case v of PNone \<Rightarrow> ascii ''None'' | PInt i \<Rightarrow> str_int i | PStr s \<Rightarrow> s)"

type_synonym user_info = "ustr \<rightharpoonup> pyval"

text \<open>\<open>user_info.get(key, 'N/A')\<close>.\<close>

definition get_or_na :: "user_info \<Rightarrow> string \<Rightarrow> pyval" where
  "get_or_na info k = (case info (ascii k) of None \<Rightarrow> PStr (ascii ''N/A'') | Some v \<Rightarrow> v)"

text \<open>
  A notification record as \<open>_log_notification\<close> writes it; \<open>reviewed_at\<close> is the key that
  \<open>mark_notification_as_reviewed\<close> adds. The file holds the list of records and, when
  \<open>_ensure_log_file\<close> created it, the settings block.
\<close>

record notification =
  n_id :: int
  timestamp :: ustr
  n_type :: ustr
  user_info :: user_info
  message :: ustr
  status :: ustr
  reviewed_at :: "ustr option"

record settings =
  telegram_enabled :: bool
  email_enabled :: bool
  created_at :: ustr

record log_data =
  notifications :: "notification list"
  settings :: "settings option"

text \<open>
  The file \<open>notifications_log.json\<close>: absent, present with a content that the code cannot
  read as a log (reading or parsing it, or taking its \<open>notifications\<close> list, raises an
  exception whose text is kept), or present and holding a log.
\<close>

datatype log_file = Absent | Garbled ustr | Stored log_data

text \<open>
  A call of \<open>bot.send_message(chat_id, text, parse_mode)\<close>. The bot is the transport, an
  external collaborator: it answers a call with \<open>None\<close> when the message is accepted and
  with the text of the exception it raises otherwise.
\<close>

record outbound =
  chat_id :: pyval
  body :: ustr
  parse_mode :: ustr

type_synonym bot = "outbound \<Rightarrow> ustr option"

section \<open>Data of the conversation flow (ask_module.py)\<close>

datatype ask_state = waiting_for_question | confirming_question

text \<open>
  The calls that address the user: \<open>message.answer\<close> (text, parse mode, inline keyboard as
  rows of buttons, each a label and its callback data), \<open>callback.message.edit_text\<close> and
  \<open>callback.answer\<close>. Each is a request to the transport and can raise.
\<close>

type_synonym keyboard = "(ustr \<times> ustr) list list"

datatype ui_event =
  Answer ustr "ustr option" "keyboard option"
  | EditText ustr "ustr option"
  | CallbackAnswer

record tg_user =
  user_id :: int
  first_name :: "ustr option"
  last_name :: "ustr option"
  username :: "ustr option"

record callback_query =
  cb_data :: "ustr option"
  from_user :: tg_user

text \<open>
  A write of the log file that raises, with the text of the exception: either before the
  file is opened (\<open>json.dumps\<close> or \<open>open\<close> raises), which leaves the file as it was, or
  after \<open>open(mode='w')\<close> has truncated it, which leaves a file that no longer parses; the
  second text is the one that reading the damaged file raises.
\<close>

datatype write_failure = Refused ustr | Damaged ustr ustr

text \<open>
  Everything the two modules can change or reach: the FSM context of the conversation
  (the state, \<open>None\<close> when idle, and the data dictionary), the calls made to address the
  user (in order, whether or not they were delivered), the calls made to the bot for the
  owner, the log file, and the two faults of the environment: whether writing a given
  content to the file raises, and whether a call that addresses the user raises, given
  the calls made before it. Calls of \<open>logger\<close> are left out.
\<close>

record world =
  fsm_state :: "ask_state option"
  fsm_data :: "string \<rightharpoonup> ustr"
  shown :: "ui_event list"
  outbox :: "outbound list"
  log_file :: log_file
  write_fault :: "log_data \<Rightarrow> write_failure option"
  ui_fault :: "ui_event list \<Rightarrow> ui_event \<Rightarrow> bool"

text \<open>
  The exceptions a handler lets escape: \<open>None.strip()\<close> on a message without text, and an
  exception of the transport in a call that addresses the user. What a handler did before
  it raised stays done, so the outcome of a handler is the world it left and, when it
  raised, the exception.
\<close>

datatype error = AttributeError | TelegramError

datatype outcome = Returned world | Raised error world

fun final :: "outcome \<Rightarrow> world" where
  "final (Returned w) = w"
| "final (Raised e w) = w"

section \<open>The notification manager\<close>

record notification_manager =
  owner_telegram_id :: "ustr option"
  owner_email :: "ustr option"

text \<open>
  \<open>write_text(json.dumps(data))\<close>: the whole file is replaced, or the call raises; \<open>Inl\<close>
  carries the text of the exception and the world it left.
\<close>

definition write_text :: "log_data \<Rightarrow> world \<Rightarrow> (ustr \<times> world) + world" where
  "write_text d w =
     (case write_fault w d of
        None \<Rightarrow> Inr (w\<lparr>log_file := Stored d\<rparr>)
      | Some (Refused e) \<Rightarrow> Inl (e, w)
      | Some (Damaged e g) \<Rightarrow> Inl (e, w\<lparr>log_file := Garbled g\<rparr>))"

text \<open>\<open>_ensure_log_file\<close>, called by the constructor; an exception there is not caught.\<close>

definition ensure_log_file ::
    "notification_manager \<Rightarrow> datetime \<Rightarrow> world \<Rightarrow> (ustr \<times> world) + world" where
  "ensure_log_file m now w =
     (if log_file w = Absent then
        write_text \<lparr>notifications = [],
          settings = Some \<lparr>telegram_enabled = (owner_telegram_id m \<noteq> None),
            email_enabled = False, created_at = isoformat now\<rparr>\<rparr> w
      else Inr w)"

text \<open>The fixed texts of the owner's message, with an English gloss of each.\<close>

(* QUESTION FROM A USER, after a question-mark emoji *)
definition hdr_user_question :: ustr where
  "hdr_user_question =
     [10067, 32, 1042, 1054, 1055, 1056, 1054, 1057, 32, 1054, 1058, 32, 1055, 1054, 1051,
     1068, 1047, 1054, 1042, 1040, 1058, 1045, 1051, 1071]"

(* FEEDBACK, after a memo emoji *)
definition hdr_feedback :: ustr where
  "hdr_feedback =
     [128221, 32, 1054, 1041, 1056, 1040, 1058, 1053, 1040, 1071, 32, 1057, 1042, 1071,
     1047, 1068]"

(* URGENT NOTIFICATION, after a siren emoji *)
definition hdr_urgent :: ustr where
  "hdr_urgent =
     [128680, 32, 1057, 1056, 1054, 1063, 1053, 1054, 1045, 32, 1059, 1042, 1045, 1044,
     1054, 1052, 1051, 1045, 1053, 1048, 1045]"

(* NOTIFICATION, after an envelope emoji *)
definition hdr_default :: ustr where
  "hdr_default =
     [128232, 32, 1059, 1042, 1045, 1044, 1054, 1052, 1051, 1045, 1053, 1048, 1045]"

(* <b>User:</b>, after a bust emoji *)
definition lbl_user :: ustr where
  "lbl_user =
     [128100] @ ascii '' <b>'' @ [1055, 1086, 1083, 1100, 1079, 1086, 1074, 1072, 1090,
     1077, 1083, 1100] @ ascii '':</b>''"

(* First name:  *)
definition lbl_first_name :: ustr where
  "lbl_first_name =
     [1048, 1084, 1103, 58, 32]"

(* Last name:  *)
definition lbl_last_name :: ustr where
  "lbl_last_name =
     [1060, 1072, 1084, 1080, 1083, 1080, 1103, 58, 32]"

(* <b>Message:</b>, after a speech-balloon emoji *)
definition lbl_message :: ustr where
  "lbl_message =
     [128172] @ ascii '' <b>'' @ [1057, 1086, 1086, 1073, 1097, 1077, 1085, 1080, 1077] @
     ascii '':</b>''"

(* <b>Time:</b> , after an alarm-clock emoji *)
definition lbl_time :: ustr where
  "lbl_time =
     [9200] @ ascii '' <b>'' @ [1042, 1088, 1077, 1084, 1103] @ ascii '':</b> ''"

text \<open>\<open>_format_notification_message\<close>; the header table falls back to a general header.\<close>

definition header_of :: "ustr \<Rightarrow> ustr" where
  "header_of notification_type =
     (if notification_type = ascii ''user_question'' then hdr_user_question
      else if notification_type = ascii ''feedback'' then hdr_feedback
      else if notification_type = ascii ''urgent'' then hdr_urgent
      else hdr_default)"

definition format_notification_message :: "ustr \<Rightarrow> user_info \<Rightarrow> ustr \<Rightarrow> datetime \<Rightarrow> ustr" where
  "format_notification_message msg info notification_type now =
     ascii ''<b>'' @ header_of notification_type @ ascii ''</b>'' @ [10, 10]
     @ lbl_user @ [10]
     @ ascii ''ID: '' @ py_str (get_or_na info ''id'') @ [10]
     @ ascii ''Username: @'' @ py_str (get_or_na info ''username'') @ [10]
     @ lbl_first_name @ py_str (get_or_na info ''first_name'') @ [10]
     @ lbl_last_name @ py_str (get_or_na info ''last_name'') @ [10, 10]
     @ lbl_message @ [10]
     @ msg @ [10, 10]
     @ lbl_time @ strftime now @ [10]"

text \<open>
  \<open>_log_notification\<close>: read the file (an absent file is an empty list), number the new
  record, append it, keep the last 100, write the file back. Every exception is caught and
  returned as \<open>Inl\<close> with its text; \<open>Inr\<close> carries the new record's id.
\<close>

definition log_notification ::
    "ustr \<Rightarrow> user_info \<Rightarrow> ustr \<Rightarrow> datetime \<Rightarrow> world \<Rightarrow> (ustr + int) \<times> world" where
  "log_notification msg info notification_type now w =
     (case (case log_file w of
              Absent \<Rightarrow> Inr \<lparr>notifications = [], settings = None\<rparr>
            | Garbled e \<Rightarrow> Inl e
            | Stored d \<Rightarrow> Inr d) of
        Inl e \<Rightarrow> (Inl e, w)
      | Inr data \<Rightarrow>
          (let notification =
                 \<lparr>n_id = int (length (notifications data)) + 1,
                  timestamp = isoformat now,
                  n_type = notification_type,
                  user_info = info,
                  message = msg,
                  status = ascii ''pending'',
                  reviewed_at = None\<rparr>;
               appended = notifications data @ [notification];
               kept = (if length appended > 100
                       then drop (length appended - 100) appended else appended)
           in case write_text (data\<lparr>notifications := kept\<rparr>) w of
                Inl (e, w') \<Rightarrow> (Inl e, w')
              | Inr w' \<Rightarrow> (Inr (n_id notification), w')))"

text \<open>\<open>_send_telegram_notification\<close>: one call of the bot, its exception caught.\<close>

definition send_telegram_notification ::
    "notification_manager \<Rightarrow> ustr \<Rightarrow> user_info \<Rightarrow> bot \<Rightarrow> ustr \<Rightarrow> datetime \<Rightarrow> world
     \<Rightarrow> (ustr + unit) \<times> world" where
  "send_telegram_notification m msg info bot_instance notification_type now w =
     (let call = \<lparr>chat_id = (case owner_telegram_id m of None \<Rightarrow> PNone | Some s \<Rightarrow> PStr s),
                  body = format_notification_message msg info notification_type now,
                  parse_mode = ascii ''HTML''\<rparr>;
          w' = w\<lparr>outbox := outbox w @ [call]\<rparr>
      in case bot_instance call of
           None \<Rightarrow> (Inr (), w')
         | Some e \<Rightarrow> (Inl e, w'))"

record dispatch_result =
  telegram_sent :: bool
  email_sent :: bool
  logged :: bool
  errors :: "ustr list"

text \<open>
  \<open>send_to_owner\<close>. The clock is read once by the logging step and once by the formatting
  step.
\<close>

definition send_to_owner ::
    "notification_manager \<Rightarrow> ustr \<Rightarrow> user_info \<Rightarrow> bot option \<Rightarrow> ustr \<Rightarrow> datetime \<Rightarrow> datetime
     \<Rightarrow> world \<Rightarrow> dispatch_result \<times> world" where
  "send_to_owner m msg info bot_instance notification_type now_log now_send w =
     (let (log_result, w1) = log_notification msg info notification_type now_log w;
          results = \<lparr>telegram_sent = False, email_sent = False,
                     logged = (case log_result of Inl _ \<Rightarrow> False | Inr _ \<Rightarrow> True),
                     errors = (case log_result of
                                 Inl e \<Rightarrow> [ascii ''Log error: '' @ e]
                               | Inr _ \<Rightarrow> [])\<rparr>
      in case bot_instance of
           Some b \<Rightarrow>
             (if truthy (owner_telegram_id m) then
                (let (telegram_result, w2) =
                       send_telegram_notification m msg info b notification_type now_send w1
                 in (results\<lparr>telegram_sent :=
                                (case telegram_result of Inl _ \<Rightarrow> False | Inr _ \<Rightarrow> True),
                              errors := errors results @
                                (case telegram_result of
                                   Inl e \<Rightarrow> [ascii ''Telegram error: '' @ e]
                                 | Inr _ \<Rightarrow> [])\<rparr>, w2))
              else (results, w1))
         | None \<Rightarrow> (results, w1))"

text \<open>\<open>get_pending_notifications\<close>.\<close>

definition get_pending_notifications :: "world \<Rightarrow> notification list" where
  "get_pending_notifications w =
     (case log_file w of
        Stored d \<Rightarrow> filter (\<lambda>n. status n = ascii ''pending'') (notifications d)
      | _ \<Rightarrow> [])"

text \<open>
  \<open>mark_notification_as_reviewed\<close>: the loop stops at the first record with the id,
  updates it, writes the file and returns \<open>True\<close>; \<open>mark_first\<close> is that loop, \<open>None\<close> when
  it ends without a match.
\<close>

fun mark_first :: "int \<Rightarrow> ustr \<Rightarrow> notification list \<Rightarrow> notification list option" where
  "mark_first i t [] = None"
| "mark_first i t (n # ns) =
     (if n_id n = i then Some (n\<lparr>status := ascii ''reviewed'', reviewed_at := Some t\<rparr> # ns)
      else (case mark_first i t ns of None \<Rightarrow> None | Some ns' \<Rightarrow> Some (n # ns')))"

definition mark_notification_as_reviewed :: "int \<Rightarrow> datetime \<Rightarrow> world \<Rightarrow> bool \<times> world" where
  "mark_notification_as_reviewed notification_id now w =
     (case log_file w of
        Stored d \<Rightarrow>
          (case mark_first notification_id (isoformat now) (notifications d) of
             None \<Rightarrow> (False, w)
           | Some ns \<Rightarrow>
               (case write_text (d\<lparr>notifications := ns\<rparr>) w of
                  Inl (e, w') \<Rightarrow> (False, w')
                | Inr w' \<Rightarrow> (True, w')))
      | _ \<Rightarrow> (False, w))"

text \<open>The fixed texts of the conversation, with an English gloss of each.\<close>

(* <b>QUESTION FROM A USER</b>, after a question-mark emoji *)
definition hdr_ask :: ustr where
  "hdr_ask =
     [10067] @ ascii '' <b>'' @ [1042, 1054, 1055, 1056, 1054, 1057, 32, 1054, 1058, 32,
     1055, 1054, 1051, 1068, 1047, 1054, 1042, 1040, 1058, 1045, 1051, 1071] @
     ascii ''</b>''"

(* <b>QUESTION FROM A USER (quick send)</b>, after a question-mark emoji *)
definition hdr_quick_ask :: ustr where
  "hdr_quick_ask =
     [10067] @ ascii '' <b>'' @ [1042, 1054, 1055, 1056, 1054, 1057, 32, 1054, 1058, 32,
     1055, 1054, 1051, 1068, 1047, 1054, 1042, 1040, 1058, 1045, 1051, 1071, 32, 40, 1073,
     1099, 1089, 1090, 1088, 1072, 1103, 32, 1086, 1090, 1087, 1088, 1072, 1074, 1082,
     1072] @ ascii '')</b>''"

(* Not specified (Ne ukazano) *)
definition not_specified :: ustr where
  "not_specified =
     [1053, 1077, 32, 1091, 1082, 1072, 1079, 1072, 1085, 1086]"

(* Not specified (Ne ukazan) *)
definition not_specified_username :: ustr where
  "not_specified_username =
     [1053, 1077, 32, 1091, 1082, 1072, 1079, 1072, 1085]"

(* Contacting the owner is temporarily unavailable. / The owner has not given contact data. *)
definition msg_unavailable :: ustr where
  "msg_unavailable =
     [10060, 32, 1060, 1091, 1085, 1082, 1094, 1080, 1103, 32, 1089, 1074, 1103, 1079,
     1080, 32, 1089, 32, 1074, 1083, 1072, 1076, 1077, 1083, 1100, 1094, 1077, 1084, 32,
     1074, 1088, 1077, 1084, 1077, 1085, 1085, 1086, 32, 1085, 1077, 1076, 1086, 1089,
     1090, 1091, 1087, 1085, 1072, 46, 10, 1042, 1083, 1072, 1076, 1077, 1083, 1077, 1094,
     32, 1085, 1077, 32, 1091, 1082, 1072, 1079, 1072, 1083, 32, 1089, 1074, 1086, 1080,
     32, 1082, 1086, 1085, 1090, 1072, 1082, 1090, 1085, 1099, 1077, 32, 1076, 1072, 1085,
     1085, 1099, 1077, 46]"

(* <b>Question to the owner</b> / Write your question ... / To cancel use the command /cancel *)
definition msg_ask_prompt :: ustr where
  "msg_ask_prompt =
     [128221] @ ascii '' <b>'' @ [1042, 1086, 1087, 1088, 1086, 1089, 32, 1074, 1083, 1072,
     1076, 1077, 1083, 1100, 1094, 1091] @ ascii ''</b>'' @ [10, 10, 1053, 1072, 1087,
     1080, 1096, 1080, 1090, 1077, 32, 1074, 1072, 1096, 32, 1074, 1086, 1087, 1088, 1086,
     1089, 32, 1080, 1083, 1080, 32, 1089, 1086, 1086, 1073, 1097, 1077, 1085, 1080, 1077,
     44, 32, 1082, 1086, 1090, 1086, 1088, 1086, 1077, 32, 1103, 32, 1087, 1077, 1088,
     1077, 1076, 1072, 1084, 32, 1044, 1084, 1080, 1090, 1088, 1080, 1102, 46, 10, 10,
     1044, 1083, 1103, 32, 1086, 1090, 1084, 1077, 1085, 1099, 32, 1080, 1089, 1087, 1086,
     1083, 1100, 1079, 1091, 1081, 1090, 1077, 32, 1082, 1086, 1084, 1072, 1085, 1076,
     1091] @ ascii '' /cancel''"

(* Sending the question was cancelled. *)
definition msg_question_cancelled :: ustr where
  "msg_question_cancelled =
     [10060, 32, 1054, 1090, 1087, 1088, 1072, 1074, 1082, 1072, 32, 1074, 1086, 1087,
     1088, 1086, 1089, 1072, 32, 1086, 1090, 1084, 1077, 1085, 1077, 1085, 1072, 46]"

(* <b>Confirm sending:</b> / <i> *)
definition msg_confirm_head :: ustr where
  "msg_confirm_head =
     ascii ''<b>'' @ [1055, 1086, 1076, 1090, 1074, 1077, 1088, 1076, 1080, 1090, 1077, 32,
     1086, 1090, 1087, 1088, 1072, 1074, 1082, 1091] @ ascii '':</b>'' @ [10, 10] @
     ascii ''<i>''"

(* ...</i> / Send this question to Dmitry? *)
definition msg_confirm_tail :: ustr where
  "msg_confirm_tail =
     ascii ''...</i>'' @ [10, 10, 1054, 1090, 1087, 1088, 1072, 1074, 1080, 1090, 1100, 32,
     1101, 1090, 1086, 1090, 32, 1074, 1086, 1087, 1088, 1086, 1089, 32, 1044, 1084, 1080,
     1090, 1088, 1080, 1102, 63]"

(* Send, after a check-mark emoji *)
definition btn_send :: ustr where
  "btn_send =
     [9989, 32, 1054, 1090, 1087, 1088, 1072, 1074, 1080, 1090, 1100]"

(* Cancel, after a cross-mark emoji *)
definition btn_cancel :: ustr where
  "btn_cancel =
     [10060, 32, 1054, 1090, 1084, 1077, 1085, 1072]"

(* Error: the owner's ID is not given in the settings. *)
definition msg_owner_not_set :: ustr where
  "msg_owner_not_set =
     [10060, 32, 1054, 1096, 1080, 1073, 1082, 1072] @ ascii '': ID '' @ [1074, 1083, 1072,
     1076, 1077, 1083, 1100, 1094, 1072, 32, 1085, 1077, 32, 1091, 1082, 1072, 1079, 1072,
     1085, 32, 1074, 32, 1085, 1072, 1089, 1090, 1088, 1086, 1081, 1082, 1072, 1093, 46]"

(* <b>Your question was sent to Dmitry!</b> / I notified him ... usually answers within 24 hours. / Thank you! *)
definition msg_sent :: ustr where
  "msg_sent =
     [9989] @ ascii '' <b>'' @ [1042, 1072, 1096, 32, 1074, 1086, 1087, 1088, 1086, 1089,
     32, 1086, 1090, 1087, 1088, 1072, 1074, 1083, 1077, 1085, 32, 1044, 1084, 1080, 1090,
     1088, 1080, 1102] @ ascii ''!</b>'' @ [10, 10, 1071, 32, 1091, 1074, 1077, 1076, 1086,
     1084, 1080, 1083, 32, 1077, 1075, 1086, 32, 1086, 32, 1074, 1072, 1096, 1077, 1084,
     32, 1089, 1086, 1086, 1073, 1097, 1077, 1085, 1080, 1080, 46, 32, 1054, 1073, 1099,
     1095, 1085, 1086, 32, 1086, 1085, 32, 1086, 1090, 1074, 1077, 1095, 1072, 1077, 1090,
     32, 1074, 32, 1090, 1077, 1095, 1077, 1085, 1080, 1077] @ ascii '' 24 '' @ [1095,
     1072, 1089, 1086, 1074, 46, 10, 10, 1057, 1087, 1072, 1089, 1080, 1073, 1086, 32,
     1079, 1072, 32, 1086, 1073, 1088, 1072, 1097, 1077, 1085, 1080, 1077, 33, 32, 10024]"

(* <b>An error occurred while sending</b> / Please try later or get in touch another way. *)
definition msg_send_error :: ustr where
  "msg_send_error =
     [10060] @ ascii '' <b>'' @ [1055, 1088, 1086, 1080, 1079, 1086, 1096, 1083, 1072, 32,
     1086, 1096, 1080, 1073, 1082, 1072, 32, 1087, 1088, 1080, 32, 1086, 1090, 1087, 1088,
     1072, 1074, 1082, 1077] @ ascii ''</b>'' @ [10, 10, 1055, 1086, 1078, 1072, 1083,
     1091, 1081, 1089, 1090, 1072, 44, 32, 1087, 1086, 1087, 1088, 1086, 1073, 1091, 1081,
     1090, 1077, 32, 1087, 1086, 1079, 1078, 1077, 32, 1080, 1083, 1080, 32, 1089, 1074,
     1103, 1078, 1080, 1090, 1077, 1089, 1100, 32, 1076, 1088, 1091, 1075, 1080, 1084, 32,
     1089, 1087, 1086, 1089, 1086, 1073, 1086, 1084, 46]"

(* vopros: (question:), the quick-ask prefix, in lower-case Cyrillic *)
definition quick_prefix :: ustr where
  "quick_prefix =
     [1074, 1086, 1087, 1088, 1086, 1089, 58]"

(* Please write the question after 'vopros:' / Example: <i>vopros: How can one cooperate with you?</i> *)
definition msg_quick_usage :: ustr where
  "msg_quick_usage =
     [1055, 1086, 1078, 1072, 1083, 1091, 1081, 1089, 1090, 1072, 44, 32, 1085, 1072, 1087,
     1080, 1096, 1080, 1090, 1077, 32, 1074, 1086, 1087, 1088, 1086, 1089, 32, 1087, 1086,
     1089, 1083, 1077, 32, 39, 1074, 1086, 1087, 1088, 1086, 1089, 58, 39, 10, 1055, 1088,
     1080, 1084, 1077, 1088] @ ascii '': <i>'' @ [1074, 1086, 1087, 1088, 1086, 1089, 58,
     32, 1050, 1072, 1082, 32, 1089, 32, 1074, 1072, 1084, 1080, 32, 1084, 1086, 1078,
     1085, 1086, 32, 1089, 1086, 1090, 1088, 1091, 1076, 1085, 1080, 1095, 1072, 1090,
     1100] @ ascii ''?</i>''"

(* Contacting the owner is temporarily unavailable. *)
definition msg_quick_unavailable :: ustr where
  "msg_quick_unavailable =
     [10060, 32, 1060, 1091, 1085, 1082, 1094, 1080, 1103, 32, 1089, 1074, 1103, 1079,
     1080, 32, 1089, 32, 1074, 1083, 1072, 1076, 1077, 1083, 1100, 1094, 1077, 1084, 32,
     1074, 1088, 1077, 1084, 1077, 1085, 1085, 1086, 32, 1085, 1077, 1076, 1086, 1089,
     1090, 1091, 1087, 1085, 1072, 46]"

(* <b>Your question was sent to Dmitry!</b> / I notified him ... He will answer at the first opportunity. *)
definition msg_quick_sent :: ustr where
  "msg_quick_sent =
     [9989] @ ascii '' <b>'' @ [1042, 1072, 1096, 32, 1074, 1086, 1087, 1088, 1086, 1089,
     32, 1086, 1090, 1087, 1088, 1072, 1074, 1083, 1077, 1085, 32, 1044, 1084, 1080, 1090,
     1088, 1080, 1102] @ ascii ''!</b>'' @ [10, 10, 1071, 32, 1091, 1074, 1077, 1076, 1086,
     1084, 1080, 1083, 32, 1077, 1075, 1086, 32, 1086, 32, 1074, 1072, 1096, 1077, 1084,
     32, 1089, 1086, 1086, 1073, 1097, 1077, 1085, 1080, 1080, 46, 32, 1054, 1085, 32,
     1086, 1090, 1074, 1077, 1090, 1080, 1090, 32, 1074, 1072, 1084, 32, 1087, 1088, 1080,
     32, 1087, 1077, 1088, 1074, 1086, 1081, 32, 1074, 1086, 1079, 1084, 1086, 1078, 1085,
     1086, 1089, 1090, 1080, 46]"

(* Could not send the question. Please try later. *)
definition msg_quick_error :: ustr where
  "msg_quick_error =
     [10060, 32, 1053, 1077, 32, 1091, 1076, 1072, 1083, 1086, 1089, 1100, 32, 1086, 1090,
     1087, 1088, 1072, 1074, 1080, 1090, 1100, 32, 1074, 1086, 1087, 1088, 1086, 1089, 46,
     32, 1055, 1086, 1078, 1072, 1083, 1091, 1081, 1089, 1090, 1072, 44, 32, 1087, 1086,
     1087, 1088, 1086, 1073, 1091, 1081, 1090, 1077, 32, 1087, 1086, 1079, 1078, 1077, 46]"

(* There are no active actions to cancel. *)
definition msg_nothing_to_cancel :: ustr where
  "msg_nothing_to_cancel =
     [1053, 1077, 1090, 32, 1072, 1082, 1090, 1080, 1074, 1085, 1099, 1093, 32, 1076, 1077,
     1081, 1089, 1090, 1074, 1080, 1081, 32, 1076, 1083, 1103, 32, 1086, 1090, 1084, 1077,
     1085, 1099, 46]"

(* The action was cancelled. *)
definition msg_action_cancelled :: ustr where
  "msg_action_cancelled =
     [10060, 32, 1044, 1077, 1081, 1089, 1090, 1074, 1080, 1077, 32, 1086, 1090, 1084,
     1077, 1085, 1077, 1085, 1086, 46]"

section \<open>The conversation flow (ask_module.py)\<close>

text \<open>
  The module holds the owner's id, a text, and the bot. Python's \<open>int(...)\<close>, which the
  handlers apply to the owner's id, is a parameter \<open>py_int\<close> of the handlers that call it:
  \<open>None\<close> where it raises \<open>ValueError\<close>.
\<close>

record ask_module =
  owner_id :: "ustr option"
  bot :: bot

text \<open>The constructor: \<open>owner_id or os.getenv("OWNER_TELEGRAM_ID")\<close>.\<close>

definition init_ask_module :: "bot \<Rightarrow> ustr option \<Rightarrow> ustr option \<Rightarrow> ask_module" where
  "init_ask_module b owner getenv_owner =
     \<lparr>owner_id = (if truthy owner then owner else getenv_owner), bot = b\<rparr>"

definition html :: "ustr option" where
  "html = Some (ascii ''HTML'')"

text \<open>
  A call that addresses the user is recorded and then either returns or raises, as the
  transport decides.
\<close>

definition call_ui :: "ui_event \<Rightarrow> world \<Rightarrow> outcome" where
  "call_ui ev w =
     (if ui_fault w (shown w) ev then Raised TelegramError (w\<lparr>shown := shown w @ [ev]\<rparr>)
      else Returned (w\<lparr>shown := shown w @ [ev]\<rparr>))"

definition answer :: "ustr \<Rightarrow> ustr option \<Rightarrow> keyboard option \<Rightarrow> world \<Rightarrow> outcome" where
  "answer t mode markup w = call_ui (Answer t mode markup) w"

definition edit_text :: "ustr \<Rightarrow> ustr option \<Rightarrow> world \<Rightarrow> outcome" where
  "edit_text t mode w = call_ui (EditText t mode) w"

definition callback_answer :: "world \<Rightarrow> outcome" where
  "callback_answer w = call_ui CallbackAnswer w"

text \<open>\<open>state.clear()\<close> resets the state and the data.\<close>

definition clear :: "world \<Rightarrow> world" where
  "clear w = w\<lparr>fsm_state := None, fsm_data := Map.empty\<rparr>"

text \<open>
  \<open>cmd_ask_owner\<close>, the handler of \<open>/ask\<close>. The state is set after the prompt is answered,
  so a prompt that raises leaves the state as it was.
\<close>

definition cmd_ask_owner :: "ask_module \<Rightarrow> world \<Rightarrow> outcome" where
  "cmd_ask_owner m w =
     (if \<not> truthy (owner_id m) then answer msg_unavailable None None w
      else
        (case answer msg_ask_prompt html None w of
           Raised e w1 \<Rightarrow> Raised e w1
         | Returned w1 \<Rightarrow> Returned (w1\<lparr>fsm_state := Some waiting_for_question\<rparr>)))"

text \<open>
  \<open>process_ask_question\<close>, the handler of any message in \<open>waiting_for_question\<close>. A message
  without text has \<open>message.text = None\<close>, and \<open>.strip()\<close> raises. The question is stored
  before the confirmation is answered and the state is set after it.
\<close>

definition confirm_keyboard :: keyboard where
  "confirm_keyboard = [[(btn_send, ascii ''ask_confirm''), (btn_cancel, ascii ''ask_cancel'')]]"

definition process_ask_question :: "ask_module \<Rightarrow> ustr option \<Rightarrow> world \<Rightarrow> outcome" where
  "process_ask_question m message_text w =
     (case message_text of
        None \<Rightarrow> Raised AttributeError w
      | Some t \<Rightarrow>
          (let user_question = strip t in
           if lower user_question = ascii ''/cancel'' then
             answer msg_question_cancelled None None (clear w)
           else
             (let w1 = w\<lparr>fsm_data := (fsm_data w)(''question'' \<mapsto> user_question)\<rparr> in
              case answer (msg_confirm_head @ take 300 user_question @ msg_confirm_tail)
                     html (Some confirm_keyboard) w1 of
                Raised e w2 \<Rightarrow> Raised e w2
              | Returned w2 \<Rightarrow> Returned (w2\<lparr>fsm_state := Some confirming_question\<rparr>))))"

text \<open>The message for the owner, built by both sending handlers from a header.\<close>

definition owner_message :: "ustr \<Rightarrow> tg_user \<Rightarrow> ustr \<Rightarrow> datetime \<Rightarrow> ustr" where
  "owner_message header user question now =
     header @ [10, 10]
     @ lbl_user @ [10]
     @ ascii ''ID: '' @ str_int (user_id user) @ [10]
     @ lbl_first_name @ or_default (first_name user) not_specified @ [10]
     @ lbl_last_name @ or_default (last_name user) not_specified @ [10]
     @ ascii ''Username: @'' @ or_default (username user) not_specified_username @ [10, 10]
     @ lbl_message @ [10]
     @ question @ [10, 10]
     @ lbl_time @ strftime now"

text \<open>
  \<open>handle_ask_confirmation\<close>, the handler of any callback in \<open>confirming_question\<close>.
  \<open>finish\<close> is its last two lines, \<open>state.clear()\<close> and \<open>callback.answer()\<close>, reached after
  the branches. \<open>report_error\<close> is the \<open>except\<close> handler of the confirm branch: its
  \<open>edit_text\<close> is not protected, so when it raises the handler is left before \<open>finish\<close>.
  \<open>report_no_owner\<close> is the early return of the \<open>try\<close> block, whose three calls are inside
  the \<open>try\<close>. The \<open>try\<close> block also covers the conversion of the owner's id, the call of
  the bot and the \<open>edit_text\<close> of the success notice. The \<open>edit_text\<close> of the cancel branch
  is outside any \<open>try\<close>.
\<close>

definition finish :: "world \<Rightarrow> outcome" where
  "finish w = callback_answer (clear w)"

definition report_error :: "world \<Rightarrow> outcome" where
  "report_error w =
     (case edit_text msg_send_error html w of
        Raised e w1 \<Rightarrow> Raised e w1
      | Returned w1 \<Rightarrow> finish w1)"

definition report_no_owner :: "world \<Rightarrow> outcome" where
  "report_no_owner w =
     (case edit_text msg_owner_not_set None w of
        Raised e w1 \<Rightarrow> report_error w1
      | Returned w1 \<Rightarrow>
          (case callback_answer (clear w1) of
             Raised e w2 \<Rightarrow> report_error w2
           | Returned w2 \<Rightarrow> Returned w2))"

definition handle_ask_confirmation ::
    "ask_module \<Rightarrow> (ustr \<Rightarrow> int option) \<Rightarrow> callback_query \<Rightarrow> datetime \<Rightarrow> world \<Rightarrow> outcome" where
  "handle_ask_confirmation m py_int callback now w =
     (let question = (case fsm_data w ''question'' of None \<Rightarrow> [] | Some q \<Rightarrow> q) in
      if cb_data callback = Some (ascii ''ask_confirm'') then
        (case owner_id m of
           None \<Rightarrow> report_no_owner w
         | Some oid \<Rightarrow>
             if oid = [] then report_no_owner w
             else
               (case py_int oid of
                  None \<Rightarrow> report_error w
                | Some n \<Rightarrow>
                    (let call = \<lparr>chat_id = PInt n,
                                 body = owner_message hdr_ask (from_user callback) question now,
                                 parse_mode = ascii ''HTML''\<rparr>;
                         w1 = w\<lparr>outbox := outbox w @ [call]\<rparr>
                     in case bot m call of
                          Some e \<Rightarrow> report_error w1
                        | None \<Rightarrow>
                            (case edit_text msg_sent html w1 of
                               Raised e w2 \<Rightarrow> report_error w2
                             | Returned w2 \<Rightarrow> finish w2))))
      else if cb_data callback = Some (ascii ''ask_cancel'') then
        (case edit_text msg_question_cancelled None w of
           Raised e w1 \<Rightarrow> Raised e w1
         | Returned w1 \<Rightarrow> finish w1)
      else finish w)"

text \<open>
  \<open>handle_quick_ask\<close>, the handler of a message whose text starts with the prefix (the
  filter guarantees a text). It takes no FSM context. The answer of the \<open>except\<close> handler
  is not protected.
\<close>

definition handle_quick_ask ::
    "ask_module \<Rightarrow> (ustr \<Rightarrow> int option) \<Rightarrow> ustr \<Rightarrow> tg_user \<Rightarrow> datetime \<Rightarrow> world \<Rightarrow> outcome" where
  "handle_quick_ask m py_int message_text user now w =
     (let question_text = strip (replace_first quick_prefix [] message_text) in
      if question_text = [] then answer msg_quick_usage html None w
      else
        (case owner_id m of
           None \<Rightarrow> answer msg_quick_unavailable None None w
         | Some oid \<Rightarrow>
             if oid = [] then answer msg_quick_unavailable None None w
             else
               (case py_int oid of
                  None \<Rightarrow> answer msg_quick_error html None w
                | Some n \<Rightarrow>
                    (let call = \<lparr>chat_id = PInt n,
                                 body = owner_message hdr_quick_ask user question_text now,
                                 parse_mode = ascii ''HTML''\<rparr>;
                         w1 = w\<lparr>outbox := outbox w @ [call]\<rparr>
                     in case bot m call of
                          Some e \<Rightarrow> answer msg_quick_error html None w1
                        | None \<Rightarrow>
                            (case answer msg_quick_sent html None w1 of
                               Raised e w2 \<Rightarrow> answer msg_quick_error html None w2
                             | Returned w2 \<Rightarrow> Returned w2)))))"

text \<open>\<open>cmd_cancel\<close>, the handler of \<open>/cancel\<close>; it does not read the owner's id.\<close>

definition cmd_cancel :: "ask_module \<Rightarrow> world \<Rightarrow> outcome" where
  "cmd_cancel m w =
     (if fsm_state w = None then answer msg_nothing_to_cancel None None w
      else answer msg_action_cancelled None None (clear w))"

section \<open>Observers and sample inputs\<close>

text \<open>
  A request to log: the arguments of one call of \<open>_log_notification\<close> and the clock
  reading it sees. \<open>log_all\<close> makes the calls one after the other, each on the file the
  previous one left.
\<close>

type_synonym request = "ustr \<times> user_info \<times> ustr \<times> datetime"

fun log_all :: "request list \<Rightarrow> world \<Rightarrow> world" where
  "log_all [] w = w"
| "log_all ((msg, info, t, now) # rs) w = log_all rs (snd (log_notification msg info t now w))"

text \<open>A world in which no write of the log file raises.\<close>

definition writable :: "world \<Rightarrow> bool" where
  "writable w = (\<forall>d. write_fault w d = None)"

text \<open>
  The list of records that the code reads from the file: empty when the file is absent,
  none when the file cannot be read as a log.
\<close>

definition read_notifications :: "world \<Rightarrow> notification list option" where
  "read_notifications w =
     (case log_file w of Absent \<Rightarrow> Some [] | Garbled e \<Rightarrow> None | Stored d \<Rightarrow> Some (notifications d))"

text \<open>
  The records of a sequence of requests as each is built at its insertion into a log that
  was empty at the start and is trimmed to 100 after every insertion: the \<open>k\<close>-th request
  (counting from 0) meets a log of \<open>min k 100\<close> records.
\<close>

definition inserted :: "request list \<Rightarrow> notification list" where
  "inserted rs =
     map (\<lambda>(k, (msg, info, t, now)).
            \<lparr>n_id = int (min k 100) + 1, timestamp = isoformat now, n_type = t,
             user_info = info, message = msg, status = ascii ''pending'',
             reviewed_at = None\<rparr>)
       (enumerate 0 rs)"

text \<open>
  Sample inputs: a world with no conversation, no log file and no faults, a clock reading, and \<open>n\<close>
  requests whose messages are the numbers from 0.
\<close>

definition idle_world :: world where
  "idle_world = \<lparr>fsm_state = None, fsm_data = Map.empty, shown = [], outbox = [],
     log_file = Absent, write_fault = (\<lambda>d. None), ui_fault = (\<lambda>h ev. False)\<rparr>"

definition clock0 :: datetime where
  "clock0 = \<lparr>year = 2024, month = 5, day = 17, hour = 9, minute = 3, second = 7,
     microsecond = 0\<rparr>"

definition numbered_requests :: "nat \<Rightarrow> request list" where
  "numbered_requests n = map (\<lambda>k. (str_nat k, Map.empty, ascii ''user_question'', clock0)) [0..<n]"

text \<open>A world in which no \<open>edit_text\<close> raises, whatever was called before.\<close>

definition edits_delivered :: "world \<Rightarrow> bool" where
  "edits_delivered w = (\<forall>h t mode. \<not> ui_fault w h (EditText t mode))"

text \<open>
  More sample inputs: a manager with an owner id, a bot that accepts every call and one
  that raises on every call, and a world whose log file cannot be parsed.
\<close>

definition owner42 :: notification_manager where
  "owner42 = \<lparr>owner_telegram_id = Some (ascii ''42''), owner_email = None\<rparr>"

definition accepting_bot :: bot where
  "accepting_bot = (\<lambda>call. None)"

definition failing_bot :: bot where
  "failing_bot = (\<lambda>call. Some (ascii ''Forbidden''))"

definition garbled_world :: world where
  "garbled_world = idle_world\<lparr>log_file := Garbled (ascii ''Expecting value'')\<rparr>"

text \<open>
  A log of three records, two of which share the id 7, and the world that holds it.
\<close>

definition sample_record :: "int \<Rightarrow> ustr \<Rightarrow> notification" where
  "sample_record i st =
     \<lparr>n_id = i, timestamp = isoformat clock0, n_type = ascii ''user_question'',
      user_info = Map.empty, message = ascii ''hi'', status = st, reviewed_at = None\<rparr>"

definition sample_log :: log_data where
  "sample_log = \<lparr>notifications = [sample_record 3 (ascii ''pending''),
       sample_record 7 (ascii ''archived''), sample_record 7 (ascii ''pending'')],
     settings = None\<rparr>"

definition sample_world :: world where
  "sample_world = idle_world\<lparr>log_file := Stored sample_log\<rparr>"

text \<open>
  Sample inputs of the conversation flow: an \<open>int\<close> that always raises, a user without
  last name, and a module without owner id.
\<close>

definition no_int :: "ustr \<Rightarrow> int option" where
  "no_int s = None"

definition sample_user :: tg_user where
  "sample_user = \<lparr>user_id = 1001, first_name = Some (ascii ''Ann''), last_name = None,
     username = Some (ascii ''ann'')\<rparr>"

definition ask_no_owner :: ask_module where
  "ask_no_owner = \<lparr>owner_id = None, bot = accepting_bot\<rparr>"





text \<open>
  More sample inputs: a user-info mapping without last name, one whose username is \<open>None\<close>
  and whose last name is empty, a user without first name, a module with an owner id and
  the \<open>int\<close> that reads it, a confirm callback, and the sample world in
  \<open>waiting_for_question\<close>.
\<close>

definition sample_info :: user_info where
  "sample_info = [ascii ''id'' \<mapsto> PInt 1001, ascii ''username'' \<mapsto> PStr (ascii ''ann''),
     ascii ''first_name'' \<mapsto> PStr (ascii ''Ann'')]"



definition ask_owner :: ask_module where
  "ask_owner = \<lparr>owner_id = Some (ascii ''12345''), bot = accepting_bot\<rparr>"

definition int_12345 :: "ustr \<Rightarrow> int option" where
  "int_12345 s = (if s = ascii ''12345'' then Some 12345 else None)"

definition confirm_callback :: callback_query where
  "confirm_callback = \<lparr>cb_data = Some (ascii ''ask_confirm''), from_user = sample_user\<rparr>"

definition waiting_world :: world where
  "waiting_world = sample_world\<lparr>fsm_state := Some waiting_for_question\<rparr>"

text \<open>
  A question as a user types it, with white space around it; a transport on which every
  request raises; a world in \<open>confirming_question\<close> that holds a question; a cancel
  callback, a callback with other data, and a module whose bot refuses every call.
\<close>

definition sample_question :: ustr where
  "sample_question = ascii ''  How to collaborate? ''"

definition offline :: "world \<Rightarrow> world" where
  "offline w = w\<lparr>ui_fault := (\<lambda>h ev. True)\<rparr>"





section \<open>Properties\<close>

subsection \<open>Lemmas on the log\<close>

lemma log_all_snoc:
  "log_all (rs @ [(msg, info, t, now)]) w = snd (log_notification msg info t now (log_all rs w))"
  by (induction rs arbitrary: w) auto

lemma log_notification_ok:
  assumes "read_notifications w = Some ns" "writable w"
  shows "fst (log_notification msg info t now w) = Inr (int (length ns) + 1)"
    and "read_notifications (snd (log_notification msg info t now w)) =
          Some (drop (length ns + 1 - 100)
            (ns @ [\<lparr>n_id = int (length ns) + 1, timestamp = isoformat now, n_type = t,
               user_info = info, message = msg, status = ascii ''pending'',
               reviewed_at = None\<rparr>]))"
    and "writable (snd (log_notification msg info t now w))"
  using assms
  by (auto simp: log_notification_def read_notifications_def write_text_def Let_def
      writable_def split: log_file.splits)

lemma log_notification_frame:
  "outbox (snd (log_notification msg info nt now w)) = outbox w
   \<and> shown (snd (log_notification msg info nt now w)) = shown w
   \<and> fsm_state (snd (log_notification msg info nt now w)) = fsm_state w
   \<and> fsm_data (snd (log_notification msg info nt now w)) = fsm_data w
   \<and> write_fault (snd (log_notification msg info nt now w)) = write_fault w
   \<and> ui_fault (snd (log_notification msg info nt now w)) = ui_fault w"
  by (auto simp: log_notification_def write_text_def Let_def
      split: log_file.splits option.splits write_failure.splits)

lemma log_notification_garbled:
  "log_file w = Garbled e \<Longrightarrow> log_notification msg info nt now w = (Inl e, w)"
  by (simp add: log_notification_def)

lemma send_to_owner_unfold:
  "send_to_owner m msg info b nt t1 t2 w =
     (let lr = fst (log_notification msg info nt t1 w);
          w1 = snd (log_notification msg info nt t1 w);
          results = \<lparr>telegram_sent = False, email_sent = False,
                     logged = (case lr of Inl _ \<Rightarrow> False | Inr _ \<Rightarrow> True),
                     errors = (case lr of Inl e \<Rightarrow> [ascii ''Log error: '' @ e] | Inr _ \<Rightarrow> [])\<rparr>
      in case b of
           Some bi \<Rightarrow>
             (if truthy (owner_telegram_id m) then
                (let call = \<lparr>chat_id = (case owner_telegram_id m of None \<Rightarrow> PNone
                                           | Some s \<Rightarrow> PStr s),
                              body = format_notification_message msg info nt t2,
                              parse_mode = ascii ''HTML''\<rparr>
                 in (results\<lparr>telegram_sent := (bi call = None),
                      errors := errors results @
                        (case bi call of None \<Rightarrow> [] | Some e \<Rightarrow> [ascii ''Telegram error: '' @ e])\<rparr>,
                     w1\<lparr>outbox := outbox w1 @ [call]\<rparr>))
              else (results, w1))
         | None \<Rightarrow> (results, w1))"
  by (auto simp: send_to_owner_def send_telegram_notification_def Let_def
      split: prod.splits option.splits sum.splits)

lemma inserted_snoc:
  "inserted (rs @ [(msg, info, t, now)]) =
     inserted rs @ [\<lparr>n_id = int (min (length rs) 100) + 1, timestamp = isoformat now, n_type = t,
             user_info = info, message = msg, status = ascii ''pending'',
             reviewed_at = None\<rparr>]"
  by (simp add: inserted_def enumerate_append_eq)

lemma length_inserted: "length (inserted rs) = length rs"
  by (simp add: inserted_def)

lemma log_all_inserted:
  assumes "read_notifications w = Some []" "writable w"
  shows "read_notifications (log_all rs w) = Some (drop (length rs - 100) (inserted rs))
         \<and> writable (log_all rs w)"
proof (induction rs rule: rev_induct)
  case Nil
  show ?case using assms by (simp add: inserted_def)
next
  case (snoc r rs)
  obtain msg info t now where r: "r = (msg, info, t, now)" by (cases r) auto
  let ?w = "log_all rs w"
  let ?ns = "drop (length rs - 100) (inserted rs)"
  have rd: "read_notifications ?w = Some ?ns" and wf: "writable ?w"
    using snoc by auto
  have len: "length ?ns = min (length rs) 100"
    by (simp add: length_inserted)
  have ar: "\<not> length rs \<le> 100 \<Longrightarrow> Suc (length rs - 100) = length rs - 99"
    by arith
  show ?case
    unfolding r log_all_snoc
    using log_notification_ok(2,3)[OF rd wf, of msg info t now]
    by (auto simp: len inserted_snoc length_inserted min_def ar)
qed

lemma ids_inserted: "map n_id (inserted rs) = map (\<lambda>k. int (min k 100) + 1) [0..<length rs]"
proof (induction rs rule: rev_induct)
  case Nil
  show ?case by (simp add: inserted_def)
next
  case (snoc r rs)
  obtain msg info t now where r: "r = (msg, info, t, now)" by (cases r) auto
  show ?case using snoc by (simp add: r inserted_snoc)
qed

lemma messages_inserted: "map message (inserted rs) = map fst rs"
proof (induction rs rule: rev_induct)
  case Nil
  show ?case by (simp add: inserted_def)
next
  case (snoc r rs)
  obtain msg info t now where r: "r = (msg, info, t, now)" by (cases r) auto
  show ?case using snoc by (simp add: r inserted_snoc)
qed

lemma dense_ids:
  assumes "n \<le> 100"
  shows "map (\<lambda>k. int (min k 100) + 1) [0..<n] = map int [1..<Suc n]"
proof -
  have "map (\<lambda>k. int (min k 100) + 1) [0..<n] = map (\<lambda>k. int (Suc k)) [0..<n]"
    using assms by (intro map_cong) auto
  also have "\<dots> = map int (map Suc [0..<n])" by simp
  also have "\<dots> = map int [1..<Suc n]" by (simp only: map_Suc_upt One_nat_def)
  finally show ?thesis .
qed

subsection \<open>Lemmas on the conversation flow\<close>

lemma final_call_ui: "final (call_ui ev w) = w\<lparr>shown := shown w @ [ev]\<rparr>"
  by (simp add: call_ui_def)

lemma final_answer: "final (answer t mode markup w) = w\<lparr>shown := shown w @ [Answer t mode markup]\<rparr>"
  by (simp add: answer_def final_call_ui)

lemma edit_text_delivered:
  "edits_delivered w \<Longrightarrow> edit_text t mode w = Returned (w\<lparr>shown := shown w @ [EditText t mode]\<rparr>)"
  by (simp add: edit_text_def call_ui_def edits_delivered_def)


lemma edits_delivered_kept:
  "edits_delivered (w\<lparr>shown := s\<rparr>) = edits_delivered w"
  "edits_delivered (w\<lparr>outbox := ob\<rparr>) = edits_delivered w"
  "edits_delivered (clear w) = edits_delivered w"
  by (simp_all add: edits_delivered_def clear_def)

lemma edit_text_cases:
  "edit_text t mode x = Returned (x\<lparr>shown := shown x @ [EditText t mode]\<rparr>)
   \<or> edit_text t mode x = Raised TelegramError (x\<lparr>shown := shown x @ [EditText t mode]\<rparr>)"
  by (simp add: edit_text_def call_ui_def)

lemma finish_resets:
  "fsm_state (final (finish x)) = None \<and> fsm_data (final (finish x)) = Map.empty"
  by (simp add: finish_def callback_answer_def final_call_ui clear_def)

lemma finish_cases:
  "(\<exists>x'. callback_answer (clear x) = Returned x' \<and> fsm_state x' = None \<and> fsm_data x' = Map.empty
        \<and> edits_delivered x' = edits_delivered x)
   \<or> (\<exists>x'. callback_answer (clear x) = Raised TelegramError x' \<and> fsm_state x' = None
        \<and> fsm_data x' = Map.empty \<and> edits_delivered x' = edits_delivered x)"
  by (simp add: callback_answer_def call_ui_def clear_def edits_delivered_def)

lemma finish_frame:
  "log_file (final (finish x)) = log_file x \<and> outbox (final (finish x)) = outbox x"
  by (simp add: finish_def callback_answer_def final_call_ui clear_def)

lemma report_error_resets:
  assumes "edits_delivered x"
  shows "fsm_state (final (report_error x)) = None \<and> fsm_data (final (report_error x)) = Map.empty"
  using assms by (simp add: report_error_def edit_text_delivered finish_resets)

lemma report_error_frame:
  "log_file (final (report_error x)) = log_file x \<and> outbox (final (report_error x)) = outbox x"
  by (simp add: report_error_def edit_text_def call_ui_def finish_frame)

lemma report_no_owner_resets:
  assumes "edits_delivered x"
  shows "fsm_state (final (report_no_owner x)) = None
    \<and> fsm_data (final (report_no_owner x)) = Map.empty"
proof -
  let ?x1 = "x\<lparr>shown := shown x @ [EditText msg_owner_not_set None]\<rparr>"
  have e: "edits_delivered ?x1" using assms by (simp add: edits_delivered_kept)
  from finish_cases [of ?x1] show ?thesis
  proof (elim disjE exE conjE)
    fix x' assume "callback_answer (clear ?x1) = Returned x'" "fsm_state x' = None"
      "fsm_data x' = Map.empty"
    then show ?thesis
      using assms by (simp add: report_no_owner_def edit_text_delivered)
  next
    fix x' assume r: "callback_answer (clear ?x1) = Raised TelegramError x'"
      and d: "edits_delivered x' = edits_delivered ?x1"
    have "edits_delivered x'" using d e by simp
    then show ?thesis
      using assms r report_error_resets [of x']
      by (simp add: report_no_owner_def edit_text_delivered)
  qed
qed

lemma report_no_owner_frame:
  "log_file (final (report_no_owner x)) = log_file x
   \<and> outbox (final (report_no_owner x)) = outbox x"
  by (simp add: report_no_owner_def edit_text_def callback_answer_def call_ui_def clear_def
      report_error_frame)

lemma handle_ask_confirmation_resets:
  assumes "edits_delivered w"
  shows "fsm_state (final (handle_ask_confirmation m py_int callback now w)) = None
    \<and> fsm_data (final (handle_ask_confirmation m py_int callback now w)) = Map.empty"
proof (cases "cb_data callback = Some (ascii ''ask_confirm'')")
  case confirm: True
  show ?thesis
  proof (cases "owner_id m")
    case None
    with confirm assms show ?thesis
      by (simp add: handle_ask_confirmation_def report_no_owner_resets)
  next
    case owner: (Some oid)
    show ?thesis
    proof (cases "oid = []")
      case True
      with owner confirm assms show ?thesis
        by (simp add: handle_ask_confirmation_def report_no_owner_resets)
    next
      case nonempty: False
      show ?thesis
      proof (cases "py_int oid")
        case None
        with nonempty owner confirm assms show ?thesis
          by (simp add: handle_ask_confirmation_def report_error_resets)
      next
        case (Some n)
        with nonempty owner confirm assms show ?thesis
          by (simp add: handle_ask_confirmation_def Let_def report_error_resets
              edits_delivered_kept edit_text_delivered finish_resets split: option.split)
      qed
    qed
  qed
next
  case False
  with assms show ?thesis
    by (simp add: handle_ask_confirmation_def edit_text_delivered finish_resets)
qed

lemma handle_ask_confirmation_log_file:
  "log_file (final (handle_ask_confirmation m py_int callback now w)) = log_file w"
proof (cases "cb_data callback = Some (ascii ''ask_confirm'')")
  case confirm: True
  show ?thesis
  proof (cases "owner_id m")
    case None
    with confirm show ?thesis by (simp add: handle_ask_confirmation_def report_no_owner_frame)
  next
    case owner: (Some oid)
    show ?thesis
    proof (cases "oid = []")
      case True
      with owner confirm show ?thesis
        by (simp add: handle_ask_confirmation_def report_no_owner_frame)
    next
      case nonempty: False
      show ?thesis
      proof (cases "py_int oid")
        case None
        with nonempty owner confirm show ?thesis
          by (simp add: handle_ask_confirmation_def report_error_frame)
      next
        case (Some n)
        with nonempty owner confirm show ?thesis
          using edit_text_cases
          by (auto simp add: handle_ask_confirmation_def Let_def report_error_frame finish_frame
              edit_text_def call_ui_def split: option.split)
      qed
    qed
  qed
next
  case False
  then show ?thesis
    by (simp add: handle_ask_confirmation_def finish_frame edit_text_def call_ui_def)
qed

lemma handle_ask_confirmation_sends:
  assumes "cb_data cb = Some (ascii ''ask_confirm'')"
    and "owner_id m = Some oid" and "oid \<noteq> []" and "py_int oid = Some n"
    and "fsm_data w1 ''question'' = Some q"
  shows "outbox (final (handle_ask_confirmation m py_int cb now w1)) =
           outbox w1 @ [\<lparr>chat_id = PInt n,
             body = owner_message hdr_ask (from_user cb) q now,
             parse_mode = ascii ''HTML''\<rparr>]"
  using assms
  by (auto simp add: handle_ask_confirmation_def Let_def report_error_frame finish_frame
      edit_text_def call_ui_def split: option.split)

lemma process_ask_question_cases:
  assumes "lower (strip T) \<noteq> ascii ''/cancel''"
  shows "final (process_ask_question m (Some T) w) =
           (w\<lparr>fsm_data := (fsm_data w)(''question'' \<mapsto> strip T),
              shown := shown w @ [Answer (msg_confirm_head @ take 300 (strip T) @ msg_confirm_tail)
                                    html (Some confirm_keyboard)],
              fsm_state := (if ui_fault w (shown w)
                   (Answer (msg_confirm_head @ take 300 (strip T) @ msg_confirm_tail)
                      html (Some confirm_keyboard))
                 then fsm_state w else Some confirming_question)\<rparr>)"
    and "process_ask_question m (Some T) w =
           (if ui_fault w (shown w)
                 (Answer (msg_confirm_head @ take 300 (strip T) @ msg_confirm_tail)
                    html (Some confirm_keyboard))
            then Raised TelegramError (final (process_ask_question m (Some T) w))
            else Returned (final (process_ask_question m (Some T) w)))"
  using assms
  by (simp_all add: process_ask_question_def Let_def answer_def call_ui_def)

lemma owner_message_decompose:
  "owner_message header user question now =
     (header @ [10, 10] @ lbl_user @ [10] @ ascii ''ID: '' @ str_int (user_id user) @ [10])
     @ (lbl_first_name @ or_default (first_name user) not_specified @ [10])
     @ (lbl_last_name @ or_default (last_name user) not_specified @ [10]
        @ ascii ''Username: @'' @ or_default (username user) not_specified_username @ [10, 10])
     @ (lbl_message @ [10] @ question @ [10, 10])
     @ (lbl_time @ strftime now)"
  by (simp add: owner_message_def)

lemma quick_prefix_nonempty: "quick_prefix \<noteq> []"
  by (simp add: quick_prefix_def ascii_def)

lemma replace_first_prefix: "old \<noteq> [] \<Longrightarrow> replace_first old [] (old @ s) = s"
  by (cases old) auto

lemma strip_spaces:
  assumes "list_all is_space s"
  shows "strip s = []"
proof -
  have a: "dropWhile is_space s = []"
    using assms by (induction s) auto
  show ?thesis unfolding strip_def a by simp
qed

lemma strip_sample_question: "strip sample_question = ascii ''How to collaborate?''"
  by (simp add: sample_question_def strip_def is_space_def ascii_def)

lemma sample_question_not_cancel: "lower (strip sample_question) \<noteq> ascii ''/cancel''"
  by (simp add: strip_sample_question) (simp add: ascii_def lower_def)

subsection \<open>The confirm path (C1)\<close>

text \<open>
  C1, amended (confirm path). For every text \<open>T\<close> submitted in \<open>waiting_for_question\<close> whose
  stripped, lower-cased form is not \<open>/cancel\<close>, the stripped text is stored and the
  confirmation prompt is requested; when the prompt is delivered the handler returns and
  the state is \<open>confirming_question\<close>, and when the prompt raises the handler is left with
  the state as it was. After a prompt that was delivered, a confirm choice with an owner id
  that \<open>int\<close> reads makes exactly one call of the bot, whose text holds the stripped \<open>T\<close>,
  leaves the log file as it was (the conversation flow never calls the notification log),
  and resets the state provided no \<open>edit_text\<close> of the handler raises. It is
  \<open>_log_notification\<close> itself that, on a file that can be read and written, appends
  exactly one record, whose message is the text it was given and whose status is
  \<open>pending\<close>.
\<close>

theorem confirm_path:
  assumes "lower (strip T) \<noteq> ascii ''/cancel''"
    and "owner_id m = Some oid" and "oid \<noteq> []" and "py_int oid = Some n"
    and "cb_data cb = Some (ascii ''ask_confirm'')"
  shows "fsm_data (final (process_ask_question m (Some T) w)) ''question'' = Some (strip T)
    \<and> shown (final (process_ask_question m (Some T) w)) =
        shown w @ [Answer (msg_confirm_head @ take 300 (strip T) @ msg_confirm_tail)
                     html (Some confirm_keyboard)]
    \<and> outbox (final (process_ask_question m (Some T) w)) = outbox w
    \<and> log_file (final (process_ask_question m (Some T) w)) = log_file w
    \<and> (\<not> ui_fault w (shown w)
           (Answer (msg_confirm_head @ take 300 (strip T) @ msg_confirm_tail)
              html (Some confirm_keyboard)) \<longrightarrow>
         (\<exists>w1. process_ask_question m (Some T) w = Returned w1
            \<and> fsm_state w1 = Some confirming_question))
    \<and> (ui_fault w (shown w)
           (Answer (msg_confirm_head @ take 300 (strip T) @ msg_confirm_tail)
              html (Some confirm_keyboard)) \<longrightarrow>
         (\<exists>w1. process_ask_question m (Some T) w = Raised TelegramError w1
            \<and> fsm_state w1 = fsm_state w))
    \<and> (process_ask_question m (Some T) w = Returned w1 \<longrightarrow>
         fsm_state w1 = Some confirming_question
         \<and> fsm_data w1 ''question'' = Some (strip T)
         \<and> outbox (final (handle_ask_confirmation m py_int cb now w1)) =
             outbox w @ [\<lparr>chat_id = PInt n,
               body = owner_message hdr_ask (from_user cb) (strip T) now,
               parse_mode = ascii ''HTML''\<rparr>]
         \<and> log_file (final (handle_ask_confirmation m py_int cb now w1)) = log_file w
         \<and> (edits_delivered w \<longrightarrow>
              fsm_state (final (handle_ask_confirmation m py_int cb now w1)) = None))
    \<and> sublist (lbl_message @ [10] @ strip T @ [10, 10])
        (owner_message hdr_ask (from_user cb) (strip T) now)
    \<and> (read_notifications w = Some ns \<and> writable w \<longrightarrow>
         (\<exists>r. read_notifications (snd (log_notification T info nt now w))
                = Some (drop (length ns + 1 - 100) (ns @ [r]))
            \<and> message r = T \<and> status r = ascii ''pending''))"
proof -
  let ?prompt = "Answer (msg_confirm_head @ take 300 (strip T) @ msg_confirm_tail)
                   html (Some confirm_keyboard)"
  let ?P = "process_ask_question m (Some T) w"
  note f = process_ask_question_cases(1) [OF assms(1), of m w]
  note c = process_ask_question_cases(2) [OF assms(1), of m w]
  have a1: "fsm_data (final ?P) ''question'' = Some (strip T)"
    and a2: "shown (final ?P) = shown w @ [?prompt]"
    and a3: "outbox (final ?P) = outbox w"
    and a4: "log_file (final ?P) = log_file w"
    and a5: "edits_delivered (final ?P) = edits_delivered w"
    by (simp_all add: f edits_delivered_def)
  have b1: "\<exists>w1. ?P = Returned w1 \<and> fsm_state w1 = Some confirming_question"
    if "\<not> ui_fault w (shown w) ?prompt"
  proof -
    from that have "?P = Returned (final ?P)" using c by simp
    moreover from that have "fsm_state (final ?P) = Some confirming_question"
      by (simp add: f)
    ultimately show ?thesis by blast
  qed
  have b2: "\<exists>w1. ?P = Raised TelegramError w1 \<and> fsm_state w1 = fsm_state w"
    if "ui_fault w (shown w) ?prompt"
  proof -
    from that have "?P = Raised TelegramError (final ?P)" using c by simp
    moreover from that have "fsm_state (final ?P) = fsm_state w"
      by (simp add: f)
    ultimately show ?thesis by blast
  qed
  have b3: "fsm_state w1 = Some confirming_question
         \<and> fsm_data w1 ''question'' = Some (strip T)
         \<and> outbox (final (handle_ask_confirmation m py_int cb now w1)) =
             outbox w @ [\<lparr>chat_id = PInt n,
               body = owner_message hdr_ask (from_user cb) (strip T) now,
               parse_mode = ascii ''HTML''\<rparr>]
         \<and> log_file (final (handle_ask_confirmation m py_int cb now w1)) = log_file w
         \<and> (edits_delivered w \<longrightarrow>
              fsm_state (final (handle_ask_confirmation m py_int cb now w1)) = None)"
    if r: "?P = Returned w1"
  proof -
    have w1: "w1 = final ?P" by (simp add: r)
    have nf: "\<not> ui_fault w (shown w) ?prompt"
    proof
      assume "ui_fault w (shown w) ?prompt"
      then have "?P = Raised TelegramError (final ?P)" using c by simp
      with r show False by simp
    qed
    have s: "fsm_state w1 = Some confirming_question"
      unfolding w1 using nf by (simp add: f)
    have q: "fsm_data w1 ''question'' = Some (strip T)"
      unfolding w1 by (rule a1)
    have ob: "outbox (final (handle_ask_confirmation m py_int cb now w1)) =
             outbox w @ [\<lparr>chat_id = PInt n,
               body = owner_message hdr_ask (from_user cb) (strip T) now,
               parse_mode = ascii ''HTML''\<rparr>]"
      using handle_ask_confirmation_sends [where py_int = py_int and now = now,
          OF assms(5) assms(2) assms(3) assms(4) q]
        a3 w1 by simp
    have lf: "log_file (final (handle_ask_confirmation m py_int cb now w1)) = log_file w"
      using handle_ask_confirmation_log_file [of m py_int cb now w1] a4 w1 by simp
    have rs: "fsm_state (final (handle_ask_confirmation m py_int cb now w1)) = None"
      if "edits_delivered w"
    proof -
      from that have "edits_delivered w1" using a5 w1 by simp
      then show ?thesis
        using handle_ask_confirmation_resets [of w1 m py_int cb now] by simp
    qed
    show ?thesis using s q ob lf rs by blast
  qed
  have emb: "sublist (lbl_message @ [10] @ strip T @ [10, 10])
           (owner_message hdr_ask (from_user cb) (strip T) now)"
    unfolding owner_message_decompose sublist_def by (metis append.assoc)
  have lg: "\<exists>r. read_notifications (snd (log_notification T info nt now w))
                = Some (drop (length ns + 1 - 100) (ns @ [r]))
            \<and> message r = T \<and> status r = ascii ''pending''"
    if "read_notifications w = Some ns \<and> writable w"
    using that log_notification_ok(2) [of w ns T info nt now] by auto
  show ?thesis
    using a1 a2 a3 a4 b1 b2 b3 emb lg by blast
qed

text \<open>
  The amended claim at sample inputs: the sample question, submitted and confirmed in the
  sample world, where every reply is delivered; the same question submitted on a transport
  on which every request raises; and the same text given to \<open>_log_notification\<close>.
\<close>

theorem confirm_path_witness:
  "lower (strip sample_question) \<noteq> ascii ''/cancel''
   \<and> edits_delivered waiting_world
   \<and> (\<exists>w1. process_ask_question ask_owner (Some sample_question) waiting_world = Returned w1
       \<and> fsm_state w1 = Some confirming_question
       \<and> fsm_data w1 ''question'' = Some (strip sample_question)
       \<and> outbox (final (handle_ask_confirmation ask_owner int_12345 confirm_callback clock0 w1)) =
           outbox waiting_world @ [\<lparr>chat_id = PInt 12345,
             body = owner_message hdr_ask (from_user confirm_callback) (strip sample_question)
               clock0,
             parse_mode = ascii ''HTML''\<rparr>]
       \<and> log_file (final (handle_ask_confirmation ask_owner int_12345 confirm_callback clock0 w1))
           = log_file waiting_world
       \<and> fsm_state (final (handle_ask_confirmation ask_owner int_12345 confirm_callback clock0 w1))
           = None)
   \<and> (\<exists>w1. process_ask_question ask_owner (Some sample_question) (offline waiting_world)
              = Raised TelegramError w1
       \<and> fsm_state w1 = Some waiting_for_question)
   \<and> fsm_data (final (process_ask_question ask_owner (Some sample_question)
         (offline waiting_world))) ''question'' = Some (strip sample_question)
   \<and> sublist (lbl_message @ [10] @ strip sample_question @ [10, 10])
       (owner_message hdr_ask (from_user confirm_callback) (strip sample_question) clock0)
   \<and> read_notifications waiting_world = Some (notifications sample_log)
   \<and> (\<exists>r. read_notifications
          (snd (log_notification sample_question sample_info (ascii ''user_question'') clock0
             waiting_world))
         = Some (drop (length (notifications sample_log) + 1 - 100)
             (notifications sample_log @ [r]))
       \<and> message r = sample_question \<and> status r = ascii ''pending'')"
proof -
  have h2: "owner_id ask_owner = Some (ascii ''12345'')" and h3: "ascii ''12345'' \<noteq> []"
    and h4: "int_12345 (ascii ''12345'') = Some 12345"
    and h5: "cb_data confirm_callback = Some (ascii ''ask_confirm'')"
    by (simp_all add: ask_owner_def int_12345_def confirm_callback_def ascii_def)
  have h6: "read_notifications waiting_world = Some (notifications sample_log)
      \<and> writable waiting_world"
    by (simp add: read_notifications_def waiting_world_def sample_world_def idle_world_def
        writable_def)
  have h7: "edits_delivered waiting_world"
    by (simp add: edits_delivered_def waiting_world_def sample_world_def idle_world_def)
  have h8: "\<not> ui_fault waiting_world (shown waiting_world) ev" for ev
    by (simp add: waiting_world_def sample_world_def idle_world_def)
  have h9: "ui_fault (offline waiting_world) (shown (offline waiting_world)) ev" for ev
    by (simp add: offline_def)
  have h10: "fsm_state (offline waiting_world) = Some waiting_for_question"
    by (simp add: offline_def waiting_world_def)
  note c = confirm_path [where py_int = int_12345 and ns = "notifications sample_log"
      and info = sample_info and nt = "ascii ''user_question''" and now = clock0,
      OF sample_question_not_cancel h2 h3 h4 h5]
  obtain w1 where r: "process_ask_question ask_owner (Some sample_question) waiting_world
      = Returned w1"
    using h8 c [where w = waiting_world, THEN conjunct2, THEN conjunct2, THEN conjunct2, THEN conjunct2,
        THEN conjunct1] by blast
  have a: "fsm_state w1 = Some confirming_question
       \<and> fsm_data w1 ''question'' = Some (strip sample_question)
       \<and> outbox (final (handle_ask_confirmation ask_owner int_12345 confirm_callback clock0 w1)) =
           outbox waiting_world @ [\<lparr>chat_id = PInt 12345,
             body = owner_message hdr_ask (from_user confirm_callback) (strip sample_question)
               clock0,
             parse_mode = ascii ''HTML''\<rparr>]
       \<and> log_file (final (handle_ask_confirmation ask_owner int_12345 confirm_callback clock0 w1))
           = log_file waiting_world
       \<and> fsm_state (final (handle_ask_confirmation ask_owner int_12345 confirm_callback clock0 w1))
           = None"
    using r h7 c [where w = waiting_world and ?w1.0 = w1, THEN conjunct2, THEN conjunct2, THEN conjunct2, THEN conjunct2,
        THEN conjunct2, THEN conjunct2, THEN conjunct1] by blast
  have b: "\<exists>w1. process_ask_question ask_owner (Some sample_question) (offline waiting_world)
              = Raised TelegramError w1
       \<and> fsm_state w1 = Some waiting_for_question"
    using h9 h10 c [where w = "offline waiting_world", THEN conjunct2, THEN conjunct2, THEN conjunct2, THEN conjunct2,
        THEN conjunct2, THEN conjunct1] by simp
  have d: "fsm_data (final (process_ask_question ask_owner (Some sample_question)
         (offline waiting_world))) ''question'' = Some (strip sample_question)"
    using c [where w = "offline waiting_world", THEN conjunct1] .
  have e: "sublist (lbl_message @ [10] @ strip sample_question @ [10, 10])
       (owner_message hdr_ask (from_user confirm_callback) (strip sample_question) clock0)"
    using c [THEN conjunct2, THEN conjunct2, THEN conjunct2, THEN conjunct2,
        THEN conjunct2, THEN conjunct2, THEN conjunct2, THEN conjunct1] .
  have f: "\<exists>r. read_notifications
          (snd (log_notification sample_question sample_info (ascii ''user_question'') clock0
             waiting_world))
         = Some (drop (length (notifications sample_log) + 1 - 100)
             (notifications sample_log @ [r]))
       \<and> message r = sample_question \<and> status r = ascii ''pending''"
    using h6 c [where w = waiting_world, THEN conjunct2, THEN conjunct2, THEN conjunct2, THEN conjunct2,
        THEN conjunct2, THEN conjunct2, THEN conjunct2, THEN conjunct2] by (rule rev_mp)
  show ?thesis
    using sample_question_not_cancel h6 h7 r a b d e f by blast
qed

text \<open>
  C1 as stated fails: after the sample question is submitted and confirmed, with every
  reply delivered, the log file holds the three records it held before, and none of them
  carries the question.
\<close>

theorem confirm_round_trip_counterexample:
  "(\<exists>w1. process_ask_question ask_owner (Some sample_question) waiting_world = Returned w1
      \<and> fsm_state w1 = Some confirming_question
      \<and> read_notifications
           (final (handle_ask_confirmation ask_owner int_12345 confirm_callback clock0 w1))
          = Some (notifications sample_log))
   \<and> read_notifications waiting_world = Some (notifications sample_log)
   \<and> length (notifications sample_log) = 3
   \<and> list_all (\<lambda>r. message r \<noteq> sample_question \<and> message r \<noteq> strip sample_question)
        (notifications sample_log)"
proof -
  let ?P = "process_ask_question ask_owner (Some sample_question) waiting_world"
  have rd: "read_notifications waiting_world = Some (notifications sample_log)"
    by (simp add: read_notifications_def waiting_world_def sample_world_def idle_world_def)
  have nf: "\<not> ui_fault waiting_world (shown waiting_world) ev" for ev
    by (simp add: waiting_world_def sample_world_def idle_world_def)
  have p: "?P = Returned (final ?P)"
    using process_ask_question_cases(2) [OF sample_question_not_cancel, of ask_owner
        waiting_world] nf by simp
  have st: "fsm_state (final ?P) = Some confirming_question"
    and lf: "log_file (final ?P) = log_file waiting_world"
    using nf by (simp_all add: process_ask_question_cases(1) [OF sample_question_not_cancel])
  have same: "\<And>w1. log_file w1 = log_file waiting_world \<Longrightarrow>
      read_notifications
        (final (handle_ask_confirmation ask_owner int_12345 confirm_callback clock0 w1))
        = Some (notifications sample_log)"
    using rd by (simp add: read_notifications_def handle_ask_confirmation_log_file)
  have none: "list_all (\<lambda>r. message r \<noteq> sample_question \<and> message r \<noteq> strip sample_question)
        (notifications sample_log)"
    by (simp add: strip_sample_question)
      (simp add: sample_log_def sample_record_def sample_question_def ascii_def)
  have len: "length (notifications sample_log) = 3"
    by (simp add: sample_log_def)
  show ?thesis
    using p st same [OF lf] rd none len by blast
qed

subsection \<open>No owner id (C2)\<close>

text \<open>
  C2, amended (owner id unset). With no owner id, \<open>/ask\<close> answers with the fixed
  unavailable message and changes nothing else; a quick-ask with content answers with its
  own, shorter unavailable message and changes nothing else, and a quick-ask without
  content answers with the usage hint instead; \<open>/cancel\<close> does not read the owner id: it
  answers that there is nothing to cancel when the conversation is idle, and otherwise
  clears the conversation state and answers that the action was cancelled. None of the
  three calls the bot or writes the log.
\<close>

theorem owner_unset:
  assumes "\<not> truthy (owner_id m)"
  shows "final (cmd_ask_owner m w) = w\<lparr>shown := shown w @ [Answer msg_unavailable None None]\<rparr>
    \<and> (strip (replace_first quick_prefix [] txt) \<noteq> [] \<longrightarrow>
         final (handle_quick_ask m py_int txt user now w)
           = w\<lparr>shown := shown w @ [Answer msg_quick_unavailable None None]\<rparr>)
    \<and> (strip (replace_first quick_prefix [] txt) = [] \<longrightarrow>
         final (handle_quick_ask m py_int txt user now w)
           = w\<lparr>shown := shown w @ [Answer msg_quick_usage html None]\<rparr>)
    \<and> (fsm_state w = None \<longrightarrow>
         final (cmd_cancel m w) = w\<lparr>shown := shown w @ [Answer msg_nothing_to_cancel None None]\<rparr>)
    \<and> (fsm_state w \<noteq> None \<longrightarrow>
         final (cmd_cancel m w) = w\<lparr>fsm_state := None, fsm_data := Map.empty,
           shown := shown w @ [Answer msg_action_cancelled None None]\<rparr>)
    \<and> fsm_state (final (cmd_ask_owner m w)) = fsm_state w
    \<and> log_file (final (cmd_ask_owner m w)) = log_file w \<and> outbox (final (cmd_ask_owner m w)) = outbox w
    \<and> fsm_state (final (handle_quick_ask m py_int txt user now w)) = fsm_state w
    \<and> log_file (final (handle_quick_ask m py_int txt user now w)) = log_file w
    \<and> outbox (final (handle_quick_ask m py_int txt user now w)) = outbox w
    \<and> log_file (final (cmd_cancel m w)) = log_file w \<and> outbox (final (cmd_cancel m w)) = outbox w"
proof -
  have ask: "final (cmd_ask_owner m w) = w\<lparr>shown := shown w @ [Answer msg_unavailable None None]\<rparr>"
    using assms by (simp add: cmd_ask_owner_def final_answer)
  have quick: "final (handle_quick_ask m py_int txt user now w) =
      (if strip (replace_first quick_prefix [] txt) = []
       then w\<lparr>shown := shown w @ [Answer msg_quick_usage html None]\<rparr>
       else w\<lparr>shown := shown w @ [Answer msg_quick_unavailable None None]\<rparr>)"
    using assms
    by (cases "owner_id m") (simp_all add: handle_quick_ask_def final_answer truthy_def Let_def)
  have cancel: "final (cmd_cancel m w) =
      (if fsm_state w = None
       then w\<lparr>shown := shown w @ [Answer msg_nothing_to_cancel None None]\<rparr>
       else w\<lparr>fsm_state := None, fsm_data := Map.empty,
           shown := shown w @ [Answer msg_action_cancelled None None]\<rparr>)"
    by (simp add: cmd_cancel_def final_answer clear_def)
  show ?thesis
    unfolding ask quick cancel by simp
qed

text \<open>
  The amended claim at sample inputs: the module without owner id, a quick-ask with and
  without content, and \<open>/cancel\<close> in an idle and in a waiting conversation.
\<close>

theorem owner_unset_witness:
  "\<not> truthy (owner_id ask_no_owner)
   \<and> final (cmd_ask_owner ask_no_owner waiting_world)
       = waiting_world\<lparr>shown := shown waiting_world @ [Answer msg_unavailable None None]\<rparr>
   \<and> strip (replace_first quick_prefix [] (quick_prefix @ sample_question)) \<noteq> []
   \<and> final (handle_quick_ask ask_no_owner no_int (quick_prefix @ sample_question) sample_user clock0
        waiting_world)
       = waiting_world\<lparr>shown := shown waiting_world @ [Answer msg_quick_unavailable None None]\<rparr>
   \<and> strip (replace_first quick_prefix [] quick_prefix) = []
   \<and> final (handle_quick_ask ask_no_owner no_int quick_prefix sample_user clock0 waiting_world)
       = waiting_world\<lparr>shown := shown waiting_world @ [Answer msg_quick_usage html None]\<rparr>
   \<and> fsm_state idle_world = None
   \<and> final (cmd_cancel ask_no_owner idle_world)
       = idle_world\<lparr>shown := shown idle_world @ [Answer msg_nothing_to_cancel None None]\<rparr>
   \<and> fsm_state waiting_world \<noteq> None
   \<and> final (cmd_cancel ask_no_owner waiting_world)
       = waiting_world\<lparr>fsm_state := None, fsm_data := Map.empty,
           shown := shown waiting_world @ [Answer msg_action_cancelled None None]\<rparr>
   \<and> log_file (final (cmd_cancel ask_no_owner waiting_world)) = log_file waiting_world"
proof -
  have h: "\<not> truthy (owner_id ask_no_owner)"
    by (simp add: ask_no_owner_def truthy_def)
  have q1: "strip (replace_first quick_prefix [] (quick_prefix @ sample_question)) \<noteq> []"
    by (simp add: replace_first_prefix quick_prefix_nonempty strip_sample_question)
      (simp add: ascii_def)
  have q2: "strip (replace_first quick_prefix [] quick_prefix) = []"
    using replace_first_prefix [OF quick_prefix_nonempty, of "[]"] by (simp add: strip_def)
  have s1: "fsm_state idle_world = None" and s2: "fsm_state waiting_world \<noteq> None"
    by (simp_all add: idle_world_def waiting_world_def)
  show ?thesis
    using h q1 q2 s1 s2
      owner_unset [OF h, of waiting_world "quick_prefix @ sample_question" no_int sample_user clock0]
      owner_unset [OF h, of waiting_world quick_prefix no_int sample_user clock0]
      owner_unset [OF h, of idle_world quick_prefix no_int sample_user clock0]
    by blast
qed

text \<open>
  C2 as stated fails: with no owner id, \<open>/cancel\<close> in an idle conversation answers that
  there is nothing to cancel, which is neither unavailable message, and in a waiting
  conversation it resets the state; a quick-ask without content answers with the usage
  hint.
\<close>

theorem owner_unset_counterexample:
  "\<not> truthy (owner_id ask_no_owner)
   \<and> shown (final (cmd_cancel ask_no_owner idle_world)) = [Answer msg_nothing_to_cancel None None]
   \<and> msg_nothing_to_cancel \<noteq> msg_unavailable
   \<and> msg_nothing_to_cancel \<noteq> msg_quick_unavailable
   \<and> fsm_state waiting_world = Some waiting_for_question
   \<and> fsm_state (final (cmd_cancel ask_no_owner waiting_world)) = None
   \<and> shown (final (handle_quick_ask ask_no_owner no_int quick_prefix sample_user clock0 idle_world))
       = [Answer msg_quick_usage html None]
   \<and> msg_quick_usage \<noteq> msg_unavailable \<and> msg_quick_usage \<noteq> msg_quick_unavailable"
proof -
  have q2: "strip (replace_first quick_prefix [] quick_prefix) = []"
    using replace_first_prefix [OF quick_prefix_nonempty, of "[]"] by (simp add: strip_def)
  have a: "\<not> truthy (owner_id ask_no_owner)"
    by (simp add: ask_no_owner_def truthy_def)
  have b: "shown (final (cmd_cancel ask_no_owner idle_world)) = [Answer msg_nothing_to_cancel None None]"
    by (simp add: cmd_cancel_def idle_world_def final_answer)
  have c: "msg_nothing_to_cancel \<noteq> msg_unavailable"
    "msg_nothing_to_cancel \<noteq> msg_quick_unavailable"
    "msg_quick_usage \<noteq> msg_unavailable" "msg_quick_usage \<noteq> msg_quick_unavailable"
    by (simp_all add: msg_nothing_to_cancel_def msg_unavailable_def msg_quick_unavailable_def
        msg_quick_usage_def)
  have d: "fsm_state waiting_world = Some waiting_for_question"
    "fsm_state (final (cmd_cancel ask_no_owner waiting_world)) = None"
    by (simp_all add: cmd_cancel_def waiting_world_def final_answer clear_def)
  have e: "shown (final (handle_quick_ask ask_no_owner no_int quick_prefix sample_user clock0 idle_world))
       = [Answer msg_quick_usage html None]"
    using q2 by (simp add: handle_quick_ask_def final_answer idle_world_def)
  show ?thesis using a b c d e by simp
qed

subsection \<open>The cap of the log (C3)\<close>

text \<open>
  C3 (log cap and trim order). For every starting content of the log, an append that
  succeeds leaves at most 100 records. Inserting 105 records one after the other into an
  empty log leaves exactly 100 records: the last 100 inserted, in the order of their
  insertion (the five oldest are dropped from the front).
\<close>

theorem log_cap_and_trim:
  "(fst (log_notification msg info t now w) = Inr i \<longrightarrow>
      (\<exists>ns. read_notifications (snd (log_notification msg info t now w)) = Some ns
            \<and> length ns \<le> 100))
   \<and> (read_notifications w0 = Some [] \<and> writable w0 \<and> length rs = 105 \<longrightarrow>
      read_notifications (log_all rs w0) = Some (drop 5 (inserted rs))
      \<and> length (drop 5 (inserted rs)) = 100
      \<and> map message (drop 5 (inserted rs)) = drop 5 (map fst rs))"
proof (intro conjI impI)
  assume "fst (log_notification msg info t now w) = Inr i"
  then show "\<exists>ns. read_notifications (snd (log_notification msg info t now w)) = Some ns
            \<and> length ns \<le> 100"
    by (auto simp: log_notification_def read_notifications_def write_text_def Let_def
        split: log_file.splits option.splits if_splits write_failure.splits)
next
  assume h: "read_notifications w0 = Some [] \<and> writable w0 \<and> length rs = 105"
  then show "read_notifications (log_all rs w0) = Some (drop 5 (inserted rs))"
    using log_all_inserted[of w0 rs] by simp
  from h show "length (drop 5 (inserted rs)) = 100"
    by (simp add: length_inserted)
  show "map message (drop 5 (inserted rs)) = drop 5 (map fst rs)"
    by (simp only: drop_map [symmetric] messages_inserted)
qed

text \<open>
  The claim at a sample input: one append to an absent file, and the 105 numbered requests.
\<close>

theorem log_cap_and_trim_witness:
  "fst (log_notification (ascii ''hi'') Map.empty (ascii ''feedback'') clock0 idle_world) = Inr 1
   \<and> (\<exists>ns. read_notifications
           (snd (log_notification (ascii ''hi'') Map.empty (ascii ''feedback'') clock0 idle_world))
             = Some ns \<and> length ns \<le> 100)
   \<and> read_notifications idle_world = Some [] \<and> writable idle_world
   \<and> length (numbered_requests 105) = 105
   \<and> read_notifications (log_all (numbered_requests 105) idle_world)
       = Some (drop 5 (inserted (numbered_requests 105)))
   \<and> length (drop 5 (inserted (numbered_requests 105))) = 100
   \<and> map message (drop 5 (inserted (numbered_requests 105)))
       = drop 5 (map fst (numbered_requests 105))"
proof -
  have h1: "fst (log_notification (ascii ''hi'') Map.empty (ascii ''feedback'') clock0 idle_world)
      = Inr 1"
    by (simp add: log_notification_def idle_world_def write_text_def)
  have h2: "read_notifications idle_world = Some [] \<and> writable idle_world
      \<and> length (numbered_requests 105) = 105"
    by (simp add: read_notifications_def idle_world_def numbered_requests_def writable_def)
  show ?thesis
    using log_cap_and_trim [of "ascii ''hi''" Map.empty "ascii ''feedback''" clock0 idle_world 1
        idle_world "numbered_requests 105"] h1 h2
    by blast
qed

subsection \<open>Dispatch (C4)\<close>

text \<open>
  C4 (dispatch). \<open>send_to_owner\<close> runs the logging step first: on a file that can be read
  and written the log then holds the new record (with the message, the user info, the
  type, the status \<open>pending\<close> and the next id) behind the records it held, cut to the last
  100, and \<open>logged\<close> is true; when the logging step fails, \<open>logged\<close> is false, the errors
  start with \<open>Log error: \<close> and the text of the exception, and the file is as the logging
  step left it. Then, when an owner id and a bot are both given, and whether or not the
  logging step succeeded, it makes exactly one call of the bot, to the owner's id, with
  the formatted message in HTML mode; \<open>telegram_sent\<close> tells whether that call was
  accepted, and a call that raises adds \<open>Telegram error: \<close> and its text as the last
  error. Without owner id or bot no call is made. \<open>email_sent\<close> is always false.
\<close>

theorem send_to_owner_composite:
  assumes "send_to_owner m msg info b nt t1 t2 w = (r, w')"
  shows "\<not> email_sent r
    \<and> logged r = (\<exists>i. fst (log_notification msg info nt t1 w) = Inr i)
    \<and> log_file w' = log_file (snd (log_notification msg info nt t1 w))
    \<and> (read_notifications w = Some ns \<and> writable w \<longrightarrow>
          logged r
          \<and> read_notifications w' = Some (drop (length ns + 1 - 100)
               (ns @ [\<lparr>n_id = int (length ns) + 1, timestamp = isoformat t1, n_type = nt,
                  user_info = info, message = msg, status = ascii ''pending'',
                  reviewed_at = None\<rparr>]))
          \<and> list_all (\<lambda>x. \<not> prefix (ascii ''Log error: '') x) (errors r))
    \<and> (fst (log_notification msg info nt t1 w) = Inl e \<longrightarrow>
          \<not> logged r \<and> prefix [ascii ''Log error: '' @ e] (errors r))
    \<and> (log_file w = Garbled e \<longrightarrow>
          \<not> logged r \<and> prefix [ascii ''Log error: '' @ e] (errors r) \<and> log_file w' = log_file w)
    \<and> (b = Some bi \<and> owner_telegram_id m = Some oid \<and> oid \<noteq> [] \<longrightarrow>
          outbox w' = outbox w @ [\<lparr>chat_id = PStr oid,
             body = format_notification_message msg info nt t2,
             parse_mode = ascii ''HTML''\<rparr>]
          \<and> telegram_sent r = (bi \<lparr>chat_id = PStr oid,
               body = format_notification_message msg info nt t2,
               parse_mode = ascii ''HTML''\<rparr> = None)
          \<and> (\<forall>x. bi \<lparr>chat_id = PStr oid,
               body = format_notification_message msg info nt t2,
               parse_mode = ascii ''HTML''\<rparr> = Some x \<longrightarrow>
                errors r \<noteq> [] \<and> last (errors r) = ascii ''Telegram error: '' @ x))
    \<and> (b = None \<or> \<not> truthy (owner_telegram_id m) \<longrightarrow>
          w' = snd (log_notification msg info nt t1 w) \<and> outbox w' = outbox w
          \<and> \<not> telegram_sent r)"
proof -
  let ?lr = "fst (log_notification msg info nt t1 w)"
  let ?w1 = "snd (log_notification msg info nt t1 w)"
  note u = assms [unfolded send_to_owner_unfold Let_def]
  have ob: "outbox ?w1 = outbox w"
    using log_notification_frame [of msg info nt t1 w] by simp
  have lf: "log_file w' = log_file ?w1"
    using u by (auto split: option.splits if_splits)
  have rn: "read_notifications w' = read_notifications ?w1"
    using lf by (simp add: read_notifications_def)
  have lg: "logged r = (\<exists>i. ?lr = Inr i)" and em: "\<not> email_sent r"
    using u by (auto split: option.splits if_splits sum.splits)
  have ok: "logged r
          \<and> read_notifications w' = Some (drop (length ns + 1 - 100)
               (ns @ [\<lparr>n_id = int (length ns) + 1, timestamp = isoformat t1, n_type = nt,
                  user_info = info, message = msg, status = ascii ''pending'',
                  reviewed_at = None\<rparr>]))
          \<and> list_all (\<lambda>x. \<not> prefix (ascii ''Log error: '') x) (errors r)"
    if h: "read_notifications w = Some ns \<and> writable w"
  proof -
    have a: "?lr = Inr (int (length ns) + 1)"
      using h log_notification_ok(1) [of w ns msg info nt t1] by simp
    have b': "read_notifications ?w1 = Some (drop (length ns + 1 - 100)
               (ns @ [\<lparr>n_id = int (length ns) + 1, timestamp = isoformat t1, n_type = nt,
                  user_info = info, message = msg, status = ascii ''pending'',
                  reviewed_at = None\<rparr>]))"
      using h log_notification_ok(2) [of w ns msg info nt t1] by simp
    have c: "list_all (\<lambda>x. \<not> prefix (ascii ''Log error: '') x) (errors r)"
      using u a by (auto simp: ascii_def split: option.splits if_splits)
    show ?thesis using a b' c lg rn by simp
  qed
  have bad: "\<not> logged r \<and> prefix [ascii ''Log error: '' @ e] (errors r)"
    if "?lr = Inl e"
    using u that by (auto split: option.splits if_splits)
  have garbled: "\<not> logged r \<and> prefix [ascii ''Log error: '' @ e] (errors r)
      \<and> log_file w' = log_file w"
    if "log_file w = Garbled e"
    using bad lf log_notification_garbled [OF that, of msg info nt t1] by simp
  have att: "outbox w' = outbox w @ [\<lparr>chat_id = PStr oid,
             body = format_notification_message msg info nt t2,
             parse_mode = ascii ''HTML''\<rparr>]
          \<and> telegram_sent r = (bi \<lparr>chat_id = PStr oid,
               body = format_notification_message msg info nt t2,
               parse_mode = ascii ''HTML''\<rparr> = None)
          \<and> (\<forall>x. bi \<lparr>chat_id = PStr oid,
               body = format_notification_message msg info nt t2,
               parse_mode = ascii ''HTML''\<rparr> = Some x \<longrightarrow>
                errors r \<noteq> [] \<and> last (errors r) = ascii ''Telegram error: '' @ x)"
    if "b = Some bi \<and> owner_telegram_id m = Some oid \<and> oid \<noteq> []"
    using u that ob by (auto simp: truthy_def)
  have skip: "w' = ?w1 \<and> outbox w' = outbox w \<and> \<not> telegram_sent r"
    if "b = None \<or> \<not> truthy (owner_telegram_id m)"
    using u that ob by (auto split: option.splits)
  show ?thesis
    using em lg lf ok bad garbled att skip by blast
qed

text \<open>
  The claim at three sample inputs: a log file that cannot be parsed with a bot that
  accepts (the logging failure is reported and the message is sent all the same), no file
  and no bot (the record is written and nothing is sent), and no file with a bot that
  raises.
\<close>

theorem send_to_owner_composite_witness:
  "log_file garbled_world = Garbled (ascii ''Expecting value'')
   \<and> \<not> logged (fst (send_to_owner owner42 (ascii ''hi'') Map.empty (Some accepting_bot)
        (ascii ''user_question'') clock0 clock0 garbled_world))
   \<and> prefix [ascii ''Log error: '' @ ascii ''Expecting value'']
        (errors (fst (send_to_owner owner42 (ascii ''hi'') Map.empty (Some accepting_bot)
           (ascii ''user_question'') clock0 clock0 garbled_world)))
   \<and> outbox (snd (send_to_owner owner42 (ascii ''hi'') Map.empty (Some accepting_bot)
        (ascii ''user_question'') clock0 clock0 garbled_world))
       = outbox garbled_world @ [\<lparr>chat_id = PStr (ascii ''42''),
           body = format_notification_message (ascii ''hi'') Map.empty (ascii ''user_question'')
             clock0,
           parse_mode = ascii ''HTML''\<rparr>]
   \<and> telegram_sent (fst (send_to_owner owner42 (ascii ''hi'') Map.empty (Some accepting_bot)
        (ascii ''user_question'') clock0 clock0 garbled_world))
   \<and> read_notifications idle_world = Some [] \<and> writable idle_world
   \<and> logged (fst (send_to_owner owner42 (ascii ''hi'') Map.empty None
        (ascii ''user_question'') clock0 clock0 idle_world))
   \<and> read_notifications (snd (send_to_owner owner42 (ascii ''hi'') Map.empty None
        (ascii ''user_question'') clock0 clock0 idle_world))
       = Some (drop (length ([] :: notification list) + 1 - 100)
           ([] @ [\<lparr>n_id = int (length ([] :: notification list)) + 1,
              timestamp = isoformat clock0, n_type = ascii ''user_question'',
              user_info = Map.empty, message = ascii ''hi'', status = ascii ''pending'',
              reviewed_at = None\<rparr>]))
   \<and> \<not> telegram_sent (fst (send_to_owner owner42 (ascii ''hi'') Map.empty None
        (ascii ''user_question'') clock0 clock0 idle_world))
   \<and> outbox (snd (send_to_owner owner42 (ascii ''hi'') Map.empty None
        (ascii ''user_question'') clock0 clock0 idle_world)) = outbox idle_world
   \<and> last (errors (fst (send_to_owner owner42 (ascii ''hi'') Map.empty (Some failing_bot)
        (ascii ''user_question'') clock0 clock0 idle_world)))
       = ascii ''Telegram error: '' @ ascii ''Forbidden''"
proof -
  have g: "log_file garbled_world = Garbled (ascii ''Expecting value'')"
    by (simp add: garbled_world_def)
  have i: "read_notifications idle_world = Some [] \<and> writable idle_world"
    by (simp add: read_notifications_def idle_world_def writable_def)
  have o: "owner_telegram_id owner42 = Some (ascii ''42'') \<and> ascii ''42'' \<noteq> []"
    by (simp add: owner42_def ascii_def)
  have ok: "\<And>c. accepting_bot c = None" and ko: "\<And>c. failing_bot c = Some (ascii ''Forbidden'')"
    by (simp_all add: accepting_bot_def failing_bot_def)
  note a = send_to_owner_composite [OF prod.collapse [symmetric],
      where m = owner42 and msg = "ascii ''hi''" and info = Map.empty
        and b = "Some accepting_bot" and nt = "ascii ''user_question''"
        and ?t1.0 = clock0 and ?t2.0 = clock0 and w = garbled_world
        and e = "ascii ''Expecting value''" and bi = accepting_bot and oid = "ascii ''42''"]
  note b = send_to_owner_composite [OF prod.collapse [symmetric],
      where m = owner42 and msg = "ascii ''hi''" and info = Map.empty
        and b = None and nt = "ascii ''user_question''"
        and ?t1.0 = clock0 and ?t2.0 = clock0 and w = idle_world and ns = "[]"]
  note c = send_to_owner_composite [OF prod.collapse [symmetric],
      where m = owner42 and msg = "ascii ''hi''" and info = Map.empty
        and b = "Some failing_bot" and nt = "ascii ''user_question''"
        and ?t1.0 = clock0 and ?t2.0 = clock0 and w = idle_world
        and bi = failing_bot and oid = "ascii ''42''"]
  show ?thesis
    using a b c g i o ok ko by blast
qed

subsection \<open>Acknowledge (C5)\<close>

lemma isoformat_nonempty: "isoformat now \<noteq> []"
  by (simp add: isoformat_def ascii_def)

lemma mark_first_none: "mark_first i t ns = None \<longleftrightarrow> (\<forall>x\<in>set ns. n_id x \<noteq> i)"
  by (induction ns) (auto split: option.splits)

lemma mark_first_hit:
  "\<forall>x\<in>set pre. n_id x \<noteq> i \<Longrightarrow> n_id n = i \<Longrightarrow>
     mark_first i t (pre @ n # post)
       = Some (pre @ n\<lparr>status := ascii ''reviewed'', reviewed_at := Some t\<rparr> # post)"
  by (induction pre) auto

text \<open>
  C5 (acknowledge by id). When the file holds a log and can be written, marking an id sets
  the status of the first record with that id to \<open>reviewed\<close>, whatever its status was,
  stamps a non-empty \<open>reviewed_at\<close> on it, leaves every other record as it is and returns
  \<open>True\<close>. When no record of the file has the id, the result is \<open>False\<close> and the file is
  left unchanged.
\<close>

theorem acknowledge_by_id:
  "(log_file w = Stored d \<and> writable w \<and> notifications d = pre @ n # post
      \<and> n_id n = i \<and> (\<forall>x\<in>set pre. n_id x \<noteq> i) \<longrightarrow>
      mark_notification_as_reviewed i now w =
        (True, w\<lparr>log_file := Stored (d\<lparr>notifications :=
           pre @ n\<lparr>status := ascii ''reviewed'', reviewed_at := Some (isoformat now)\<rparr> # post\<rparr>)\<rparr>)
      \<and> isoformat now \<noteq> [])
   \<and> ((\<forall>d. log_file w = Stored d \<longrightarrow> (\<forall>x\<in>set (notifications d). n_id x \<noteq> i)) \<longrightarrow>
      mark_notification_as_reviewed i now w = (False, w))"
proof (intro conjI impI)
  assume h: "log_file w = Stored d \<and> writable w \<and> notifications d = pre @ n # post
      \<and> n_id n = i \<and> (\<forall>x\<in>set pre. n_id x \<noteq> i)"
  then have "mark_first i (isoformat now) (notifications d)
      = Some (pre @ n\<lparr>status := ascii ''reviewed'', reviewed_at := Some (isoformat now)\<rparr> # post)"
    using mark_first_hit [of pre i n "isoformat now" post] by simp
  with h show "mark_notification_as_reviewed i now w =
        (True, w\<lparr>log_file := Stored (d\<lparr>notifications :=
           pre @ n\<lparr>status := ascii ''reviewed'', reviewed_at := Some (isoformat now)\<rparr> # post\<rparr>)\<rparr>)"
    by (simp add: mark_notification_as_reviewed_def write_text_def writable_def)
  show "isoformat now \<noteq> []" by (rule isoformat_nonempty)
next
  assume h: "\<forall>d. log_file w = Stored d \<longrightarrow> (\<forall>x\<in>set (notifications d). n_id x \<noteq> i)"
  show "mark_notification_as_reviewed i now w = (False, w)"
  proof (cases "log_file w")
    case (Stored d)
    with h have "mark_first i (isoformat now) (notifications d) = None"
      by (simp add: mark_first_none)
    with Stored show ?thesis by (simp add: mark_notification_as_reviewed_def)
  qed (simp_all add: mark_notification_as_reviewed_def)
qed

text \<open>
  The claim at sample inputs: id 7 marks the first of the two records with that id, which
  was archived; id 9 matches nothing, in the sample log and with no file.
\<close>

theorem acknowledge_by_id_witness:
  "mark_notification_as_reviewed 7 clock0 sample_world =
     (True, sample_world\<lparr>log_file := Stored (sample_log\<lparr>notifications :=
        [sample_record 3 (ascii ''pending'')]
        @ (sample_record 7 (ascii ''archived''))
            \<lparr>status := ascii ''reviewed'', reviewed_at := Some (isoformat clock0)\<rparr>
        # [sample_record 7 (ascii ''pending'')]\<rparr>)\<rparr>)
   \<and> isoformat clock0 \<noteq> []
   \<and> mark_notification_as_reviewed 9 clock0 sample_world = (False, sample_world)
   \<and> mark_notification_as_reviewed 9 clock0 idle_world = (False, idle_world)"
proof -
  have h: "log_file sample_world = Stored sample_log \<and> writable sample_world
      \<and> notifications sample_log = [sample_record 3 (ascii ''pending'')]
          @ sample_record 7 (ascii ''archived'') # [sample_record 7 (ascii ''pending'')]
      \<and> n_id (sample_record 7 (ascii ''archived'')) = 7
      \<and> (\<forall>x\<in>set [sample_record 3 (ascii ''pending'')]. n_id x \<noteq> 7)"
    by (simp add: sample_world_def sample_log_def sample_record_def idle_world_def writable_def)
  have m: "\<forall>d. log_file sample_world = Stored d \<longrightarrow> (\<forall>x\<in>set (notifications d). n_id x \<noteq> 9)"
    by (simp add: sample_world_def sample_log_def sample_record_def idle_world_def)
  have i: "\<forall>d. log_file idle_world = Stored d \<longrightarrow> (\<forall>x\<in>set (notifications d). n_id x \<noteq> 9)"
    by (simp add: idle_world_def)
  show ?thesis
    using h m i
      acknowledge_by_id [of sample_world sample_log "[sample_record 3 (ascii ''pending'')]"
        "sample_record 7 (ascii ''archived'')" "[sample_record 7 (ascii ''pending'')]" 7 clock0]
      acknowledge_by_id [of sample_world sample_log "[]" "sample_record 3 []" "[]" 9 clock0]
      acknowledge_by_id [of idle_world sample_log "[]" "sample_record 3 []" "[]" 9 clock0]
    by blast
qed

subsection \<open>Ids (C6)\<close>

text \<open>
  C6 (id assignment). The id of a new record is the number of records in the log at that
  moment plus one. Starting from an empty log the stored ids are 1, 2, 3, ... as long as at
  most 100 records were inserted; once more than 100 were inserted every new id is 101, the
  id of the record stored last, and once more than 200 were inserted it is also the id of the
  101st inserted record, which has been trimmed from the log by then.
\<close>

theorem id_assignment:
  "(read_notifications w = Some ns \<and> writable w \<longrightarrow>
      fst (log_notification msg info t now w) = Inr (int (length ns) + 1)
      \<and> (\<exists>ns'. read_notifications (snd (log_notification msg info t now w)) = Some ns'
             \<and> ns' \<noteq> [] \<and> n_id (last ns') = int (length ns) + 1))
   \<and> (read_notifications w0 = Some [] \<and> writable w0 \<longrightarrow>
      read_notifications (log_all rs w0) = Some (drop (length rs - 100) (inserted rs))
      \<and> (length rs \<le> 100 \<longrightarrow>
            map n_id (drop (length rs - 100) (inserted rs)) = map int [1..<Suc (length rs)])
      \<and> (100 < length rs \<longrightarrow>
            fst (log_notification msg info t now (log_all rs w0)) = Inr 101
            \<and> n_id (last (drop (length rs - 100) (inserted rs))) = 101)
      \<and> (200 < length rs \<longrightarrow>
            n_id (inserted rs ! 100) = 101 \<and> 100 < length rs - 100))"
proof (intro conjI impI)
  assume h: "read_notifications w = Some ns \<and> writable w"
  then show "fst (log_notification msg info t now w) = Inr (int (length ns) + 1)"
    using log_notification_ok(1) by blast
  from h show "\<exists>ns'. read_notifications (snd (log_notification msg info t now w)) = Some ns'
             \<and> ns' \<noteq> [] \<and> n_id (last ns') = int (length ns) + 1"
    using log_notification_ok(2) [of w ns msg info t now] by simp
next
  assume h: "read_notifications w0 = Some [] \<and> writable w0"
  then have st: "read_notifications (log_all rs w0) = Some (drop (length rs - 100) (inserted rs))"
    and wf: "writable (log_all rs w0)"
    using log_all_inserted [of w0 rs] by simp_all
  show "read_notifications (log_all rs w0) = Some (drop (length rs - 100) (inserted rs))"
    by (rule st)
  {
    assume "length rs \<le> 100"
    then show "map n_id (drop (length rs - 100) (inserted rs)) = map int [1..<Suc (length rs)]"
      by (simp add: ids_inserted dense_ids)
  }
  {
    assume big: "100 < length rs"
    have "fst (log_notification msg info t now (log_all rs w0))
        = Inr (int (length (drop (length rs - 100) (inserted rs))) + 1)"
      by (rule log_notification_ok(1) [OF st wf])
    with big show "fst (log_notification msg info t now (log_all rs w0)) = Inr 101"
      by (simp add: length_inserted)
    have ne: "drop (length rs - 100) (inserted rs) \<noteq> []"
      using big by (simp add: length_inserted)
    have "last (drop (length rs - 100) (inserted rs)) = inserted rs ! (length rs - 1)"
      using big by (simp add: last_drop length_inserted last_conv_nth)
    also have "n_id \<dots> = map n_id (inserted rs) ! (length rs - 1)"
      using big by (simp add: length_inserted)
    also have "\<dots> = 101"
      using big by (simp add: ids_inserted)
    finally show "n_id (last (drop (length rs - 100) (inserted rs))) = 101" .
  }
  {
    assume big: "200 < length rs"
    have "n_id (inserted rs ! 100) = map n_id (inserted rs) ! 100"
      using big by (simp add: length_inserted)
    also have "\<dots> = 101"
      using big by (simp add: ids_inserted)
    finally show "n_id (inserted rs ! 100) = 101" .
    from big show "100 < length rs - 100" by arith
  }
qed

text \<open>
  The claim at sample inputs: an append to an absent file, and 3 and 201 numbered requests.
\<close>

theorem id_assignment_witness:
  "read_notifications idle_world = Some [] \<and> writable idle_world
   \<and> fst (log_notification (ascii ''hi'') Map.empty (ascii ''feedback'') clock0 idle_world)
       = Inr (int (length ([] :: notification list)) + 1)
   \<and> length (numbered_requests 3) \<le> 100
   \<and> map n_id (drop (length (numbered_requests 3) - 100) (inserted (numbered_requests 3)))
       = map int [1..<Suc (length (numbered_requests 3))]
   \<and> 200 < length (numbered_requests 201)
   \<and> fst (log_notification (ascii ''hi'') Map.empty (ascii ''feedback'') clock0
            (log_all (numbered_requests 201) idle_world)) = Inr 101
   \<and> n_id (last (drop (length (numbered_requests 201) - 100)
              (inserted (numbered_requests 201)))) = 101
   \<and> n_id (inserted (numbered_requests 201) ! 100) = 101
   \<and> 100 < length (numbered_requests 201) - 100"
proof -
  have h: "read_notifications idle_world = Some [] \<and> writable idle_world"
    by (simp add: read_notifications_def idle_world_def writable_def)
  have small: "length (numbered_requests 3) \<le> 100"
    and big: "200 < length (numbered_requests 201)" "100 < length (numbered_requests 201)"
    by (simp_all add: numbered_requests_def)
  show ?thesis
    using h small big
      id_assignment [of idle_world "[]" "ascii ''hi''" Map.empty "ascii ''feedback''" clock0
        idle_world "numbered_requests 3"]
      id_assignment [of idle_world "[]" "ascii ''hi''" Map.empty "ascii ''feedback''" clock0
        idle_world "numbered_requests 201"]
    by blast
qed

subsection \<open>Resolve (C7)\<close>




subsection \<open>Quick-ask without content (C8)\<close>

text \<open>
  C8 (quick-ask emptiness guard). For a message that is the prefix followed by white space
  only, \<open>handle_quick_ask\<close> answers with the usage hint and does nothing else: no call of
  the bot, no write to the log, no change of the conversation state.
\<close>

theorem quick_ask_empty_guard:
  assumes "list_all is_space ws"
  shows "final (handle_quick_ask m py_int (quick_prefix @ ws) user now w)
           = w\<lparr>shown := shown w @ [Answer msg_quick_usage html None]\<rparr>
    \<and> outbox (final (handle_quick_ask m py_int (quick_prefix @ ws) user now w)) = outbox w
    \<and> log_file (final (handle_quick_ask m py_int (quick_prefix @ ws) user now w)) = log_file w
    \<and> fsm_state (final (handle_quick_ask m py_int (quick_prefix @ ws) user now w)) = fsm_state w
    \<and> fsm_data (final (handle_quick_ask m py_int (quick_prefix @ ws) user now w)) = fsm_data w"
proof -
  have "strip (replace_first quick_prefix [] (quick_prefix @ ws)) = []"
    using assms by (simp add: replace_first_prefix quick_prefix_nonempty strip_spaces)
  then show ?thesis
    by (simp add: handle_quick_ask_def final_answer)
qed

text \<open>
  The claim at a sample input: the prefix followed by a space, a tab and a line feed.
\<close>

theorem quick_ask_empty_guard_witness:
  "list_all is_space [32, 9, 10]
   \<and> final (handle_quick_ask ask_no_owner no_int (quick_prefix @ [32, 9, 10]) sample_user clock0
        sample_world)
       = sample_world\<lparr>shown := shown sample_world @ [Answer msg_quick_usage html None]\<rparr>
   \<and> outbox (final (handle_quick_ask ask_no_owner no_int (quick_prefix @ [32, 9, 10])
        sample_user clock0 sample_world)) = outbox sample_world
   \<and> log_file (final (handle_quick_ask ask_no_owner no_int (quick_prefix @ [32, 9, 10])
        sample_user clock0 sample_world)) = log_file sample_world"
proof -
  have h: "list_all is_space [32, 9, 10]"
    by (simp add: is_space_def)
  show ?thesis
    using h quick_ask_empty_guard [OF h, of ask_no_owner no_int sample_user clock0 sample_world]
    by simp
qed

subsection \<open>Formatting (C9)\<close>











subsection \<open>Skipped transmission (C10)\<close>

lemma log_error_not_telegram: "\<not> prefix (ascii ''Telegram error: '') (ascii ''Log error: '' @ e)"
  by (simp add: ascii_def)

text \<open>
  C10, amended (a skipped transmission is not an error). When the owner id or the bot is
  absent, \<open>send_to_owner\<close> makes no call of the bot, \<open>telegram_sent\<close> and \<open>email_sent\<close> are
  false, and no entry of the errors starts with \<open>Telegram error: \<close>. A failed send on the
  same input has the same three booleans and the same errors followed by one
  \<open>Telegram error: \<close> entry: the two differ in the error list only, not in the booleans.
\<close>

theorem skipped_send_no_error:
  assumes "send_to_owner m msg info b nt t1 t2 w = (r, w')"
    and "b = None \<or> \<not> truthy (owner_telegram_id m)"
  shows "outbox w' = outbox w \<and> \<not> telegram_sent r \<and> \<not> email_sent r
    \<and> list_all (\<lambda>e. \<not> prefix (ascii ''Telegram error: '') e) (errors r)
    \<and> (\<forall>m' bi rf wf. truthy (owner_telegram_id m')
          \<and> send_to_owner m' msg info (Some bi) nt t1 t2 w = (rf, wf) \<and> \<not> telegram_sent rf \<longrightarrow>
          telegram_sent rf = telegram_sent r \<and> email_sent rf = email_sent r
          \<and> logged rf = logged r
          \<and> (\<exists>e. errors rf = errors r @ [ascii ''Telegram error: '' @ e])
          \<and> errors rf \<noteq> errors r)"
proof -
  obtain lr w1 where l: "log_notification msg info nt t1 w = (lr, w1)"
    by (cases "log_notification msg info nt t1 w") auto
  have ob: "outbox w1 = outbox w"
    using log_notification_frame [of msg info nt t1 w] l by simp
  have skipped: "r = \<lparr>telegram_sent = False, email_sent = False,
        logged = (case lr of Inl _ \<Rightarrow> False | Inr _ \<Rightarrow> True),
        errors = (case lr of Inl e \<Rightarrow> [ascii ''Log error: '' @ e] | Inr _ \<Rightarrow> [])\<rparr>"
      and w': "w' = w1"
    using assms l by (auto simp: send_to_owner_def Let_def split: option.splits)
  have part1: "outbox w' = outbox w \<and> \<not> telegram_sent r \<and> \<not> email_sent r
    \<and> list_all (\<lambda>e. \<not> prefix (ascii ''Telegram error: '') e) (errors r)"
    using skipped w' ob by (cases lr) (simp_all add: log_error_not_telegram)
  have part2: "telegram_sent rf = telegram_sent r \<and> email_sent rf = email_sent r
          \<and> logged rf = logged r
          \<and> (\<exists>e. errors rf = errors r @ [ascii ''Telegram error: '' @ e])
          \<and> errors rf \<noteq> errors r"
    if "truthy (owner_telegram_id m')"
      and "send_to_owner m' msg info (Some bi) nt t1 t2 w = (rf, wf)"
      and "\<not> telegram_sent rf"
    for m' bi rf wf
    using that l skipped
    by (auto simp: send_to_owner_def send_telegram_notification_def Let_def
        split: option.splits sum.splits)
  show ?thesis using part1 part2 by blast
qed

text \<open>
  The amended claim at a sample input: no bot against a bot that raises, on the same
  message and world.
\<close>

theorem skipped_send_no_error_witness:
  "outbox (snd (send_to_owner owner42 (ascii ''hi'') sample_info None (ascii ''user_question'')
       clock0 clock0 idle_world)) = outbox idle_world
   \<and> \<not> telegram_sent (fst (send_to_owner owner42 (ascii ''hi'') sample_info None
         (ascii ''user_question'') clock0 clock0 idle_world))
   \<and> list_all (\<lambda>e. \<not> prefix (ascii ''Telegram error: '') e)
       (errors (fst (send_to_owner owner42 (ascii ''hi'') sample_info None
         (ascii ''user_question'') clock0 clock0 idle_world)))
   \<and> truthy (owner_telegram_id owner42)
   \<and> \<not> telegram_sent (fst (send_to_owner owner42 (ascii ''hi'') sample_info (Some failing_bot)
         (ascii ''user_question'') clock0 clock0 idle_world))
   \<and> logged (fst (send_to_owner owner42 (ascii ''hi'') sample_info (Some failing_bot)
         (ascii ''user_question'') clock0 clock0 idle_world))
       = logged (fst (send_to_owner owner42 (ascii ''hi'') sample_info None
         (ascii ''user_question'') clock0 clock0 idle_world))
   \<and> errors (fst (send_to_owner owner42 (ascii ''hi'') sample_info (Some failing_bot)
         (ascii ''user_question'') clock0 clock0 idle_world))
       \<noteq> errors (fst (send_to_owner owner42 (ascii ''hi'') sample_info None
         (ascii ''user_question'') clock0 clock0 idle_world))"
proof -
  have tr: "truthy (owner_telegram_id owner42)"
    by (simp add: truthy_def owner42_def ascii_def)
  have failed: "\<not> telegram_sent (fst (send_to_owner owner42 (ascii ''hi'') sample_info
      (Some failing_bot) (ascii ''user_question'') clock0 clock0 idle_world))"
    using tr
    by (simp add: send_to_owner_def send_telegram_notification_def failing_bot_def Let_def
        split: prod.split)
  have skip: "(None :: bot option) = None \<or> \<not> truthy (owner_telegram_id owner42)"
    by simp
  note t = skipped_send_no_error [OF prod.collapse [symmetric] skip,
      of "ascii ''hi''" sample_info "ascii ''user_question''" clock0 clock0 idle_world]
  show ?thesis
    using tr failed t
      prod.collapse [of "send_to_owner owner42 (ascii ''hi'') sample_info (Some failing_bot)
         (ascii ''user_question'') clock0 clock0 idle_world", symmetric]
    by blast
qed

text \<open>
  C10 as stated fails in its last part: on the same message and world, the result of a
  skipped send (no bot) and of a failed send (a bot that raises) have the same three
  booleans and differ in the error list.
\<close>

theorem skipped_send_counterexample:
  "\<not> telegram_sent (fst (send_to_owner owner42 (ascii ''hi'') sample_info None
         (ascii ''user_question'') clock0 clock0 idle_world))
   \<and> \<not> telegram_sent (fst (send_to_owner owner42 (ascii ''hi'') sample_info (Some failing_bot)
         (ascii ''user_question'') clock0 clock0 idle_world))
   \<and> \<not> email_sent (fst (send_to_owner owner42 (ascii ''hi'') sample_info None
         (ascii ''user_question'') clock0 clock0 idle_world))
   \<and> \<not> email_sent (fst (send_to_owner owner42 (ascii ''hi'') sample_info (Some failing_bot)
         (ascii ''user_question'') clock0 clock0 idle_world))
   \<and> logged (fst (send_to_owner owner42 (ascii ''hi'') sample_info None
         (ascii ''user_question'') clock0 clock0 idle_world))
   \<and> logged (fst (send_to_owner owner42 (ascii ''hi'') sample_info (Some failing_bot)
         (ascii ''user_question'') clock0 clock0 idle_world))
   \<and> errors (fst (send_to_owner owner42 (ascii ''hi'') sample_info None
         (ascii ''user_question'') clock0 clock0 idle_world)) = []
   \<and> errors (fst (send_to_owner owner42 (ascii ''hi'') sample_info (Some failing_bot)
         (ascii ''user_question'') clock0 clock0 idle_world))
       = [ascii ''Telegram error: '' @ ascii ''Forbidden'']"
proof -
  have tr: "truthy (owner_telegram_id owner42)"
    by (simp add: truthy_def owner42_def ascii_def)
  have "fst (log_notification (ascii ''hi'') sample_info (ascii ''user_question'') clock0
      idle_world) = Inr 1"
    by (simp add: log_notification_def idle_world_def write_text_def)
  then obtain w1 where lg: "log_notification (ascii ''hi'') sample_info (ascii ''user_question'')
      clock0 idle_world = (Inr 1, w1)"
    by (cases "log_notification (ascii ''hi'') sample_info (ascii ''user_question'') clock0
      idle_world") simp
  show ?thesis
    using tr
    by (simp add: send_to_owner_def send_telegram_notification_def failing_bot_def Let_def lg)
qed

end
